theory Spec2Isabelle
  imports Complex_Main "HOL-Library.Sublist"
begin

section \<open>Budget tracker: description cleaning and statement import\<close>

text \<open>
  The development embeds two functions of \<^verbatim>\<open>budget_tracker.py\<close>:
  \<^verbatim>\<open>clean_description\<close> (lines 48-72) and \<^verbatim>\<open>clean_transaction_data\<close>
  (lines 88-124).

  Python strings are sequences of code points. Here a string is a \<^typ>\<open>char list\<close>, and
  a \<^typ>\<open>char\<close> stands for a code point below 256. On that range the whitespace test
  of \<^verbatim>\<open>str.strip\<close>, \<^verbatim>\<open>str.split\<close> and the regular expression class
  \<^verbatim>\<open>\s\<close> is the same set of code points, and case-insensitive matching of the
  ASCII letters of the prefix patterns relates each letter to its other ASCII case only.
\<close>

subsection \<open>String primitives\<close>

definition is_space :: "char \<Rightarrow> bool" where
  "is_space c =
     (let n = (of_char c :: nat)
      in (9 \<le> n \<and> n \<le> 13) \<or> (28 \<le> n \<and> n \<le> 32) \<or> n = 133 \<or> n = 160)"

text \<open>\<^verbatim>\<open>str.strip()\<close>: drop leading and trailing whitespace.\<close>

definition strip :: "string \<Rightarrow> string" where
  "strip s = rev (dropWhile is_space (rev (dropWhile is_space s)))"

text \<open>
  \<^verbatim>\<open>str.split()\<close> without arguments: the maximal runs of non-whitespace, in order.
  The first argument is the word being read.
\<close>

fun split_acc :: "string \<Rightarrow> string \<Rightarrow> string list" where
  "split_acc w [] = (if w = [] then [] else [w])"
| "split_acc w (c # cs) =
     (if is_space c then (if w = [] then split_acc [] cs else w # split_acc [] cs)
      else split_acc (w @ [c]) cs)"

definition split_ws :: "string \<Rightarrow> string list" where
  "split_ws s = split_acc [] s"

text \<open>\<^verbatim>\<open>' '.join(words)\<close>.\<close>

fun join_sp :: "string list \<Rightarrow> string" where
  "join_sp [] = []"
| "join_sp [w] = w"
| "join_sp (w # v # ws) = w @ CHR '' '' # join_sp (v # ws)"

text \<open>Case folding of one character, as \<^verbatim>\<open>re.IGNORECASE\<close> compares code points below 256
  against an ASCII pattern character.\<close>

definition lower :: "char \<Rightarrow> char" where
  "lower c =
     (case map_of (zip ''ABCDEFGHIJKLMNOPQRSTUVWXYZ'' ''abcdefghijklmnopqrstuvwxyz'') c of
        None \<Rightarrow> c
      | Some l \<Rightarrow> l)"

text \<open>
  Matching a literal at the start of the text, ignoring case: the text after the literal,
  or \<open>None\<close> when the text does not begin with it.
\<close>

fun match_literal :: "string \<Rightarrow> string \<Rightarrow> string option" where
  "match_literal [] s = Some s"
| "match_literal (p # ps) [] = None"
| "match_literal (p # ps) (c # cs) =
     (if lower c = lower p then match_literal ps cs else None)"

text \<open>
  Each pattern of the source has the shape \<^verbatim>\<open>^LITERAL\s*\<close>. \<open>match_prefix\<close> is the
  text left after a match of such a pattern (the literal, then every following whitespace
  character), and \<open>re_sub\<close> is
  \<^verbatim>\<open>re.sub(pattern, '', text, flags=re.IGNORECASE)\<close>: the pattern is anchored at the
  start, so at most one match is replaced, and the text is returned unchanged without one.
\<close>

definition match_prefix :: "string \<Rightarrow> string \<Rightarrow> string option" where
  "match_prefix lit text = map_option (dropWhile is_space) (match_literal lit text)"

definition re_sub :: "string \<Rightarrow> string \<Rightarrow> string" where
  "re_sub lit text = (case match_prefix lit text of None \<Rightarrow> text | Some rest \<Rightarrow> rest)"

subsection \<open>Cells\<close>

text \<open>
  A cell of the uploaded table is a missing value (\<^verbatim>\<open>NaN\<close>, what the readers give for
  an empty cell), a text or an integer. Floating-point cells are not modelled.
\<close>

datatype cell = Null | Text string | Number int

text \<open>Python's \<^verbatim>\<open>str()\<close> of a non-negative and of an arbitrary integer.\<close>

fun str_nat :: "nat \<Rightarrow> string" where
  "str_nat n =
     (if n < 10 then [''0123456789'' ! n]
      else str_nat (n div 10) @ [''0123456789'' ! (n mod 10)])"

declare str_nat.simps [simp del]

definition str_int :: "int \<Rightarrow> string" where
  "str_int i = (if i < 0 then CHR ''-'' # str_nat (nat (- i)) else str_nat (nat i))"

text \<open>
  Python's built-in \<^verbatim>\<open>str(x)\<close> of a cell value, as line 53 calls it. For the float
  \<^verbatim>\<open>NaN\<close> it is the text \<^verbatim>\<open>nan\<close>; line 50 returns before line 53 for that value.
\<close>

fun py_str :: "cell \<Rightarrow> string" where
  "py_str Null = ''nan''"
| "py_str (Text s) = s"
| "py_str (Number i) = str_int i"

subsection \<open>clean_description\<close>

definition prefixes_to_remove :: "string list" where
  "prefixes_to_remove =
     [''TST*'', ''SQ *'', ''PP*'', ''SP *'', ''PAYPAL *'', ''POS'', ''DEBIT'']"

text \<open>The loop \<^verbatim>\<open>for prefix in prefixes_to_remove: text = re.sub(prefix, '', text, ...)\<close>.\<close>

fun remove_prefixes :: "string list \<Rightarrow> string \<Rightarrow> string" where
  "remove_prefixes [] text = text"
| "remove_prefixes (p # ps) text = remove_prefixes ps (re_sub p text)"

text \<open>
  \<^verbatim>\<open>clean_description\<close> (lines 48-72). The guard
  \<^verbatim>\<open>pd.isna(description) or description == ""\<close> returns the empty string for a missing
  value and for the empty text; every other value is stringified, stripped, passed through
  all seven substitutions in order, and its whitespace runs are collapsed.
\<close>

definition clean_description :: "cell \<Rightarrow> string" where
  "clean_description description =
     (if description = Null \<or> description = Text [] then []
      else join_sp (split_ws (remove_prefixes prefixes_to_remove (strip (py_str description)))))"

subsection \<open>The pandas library\<close>

text \<open>
  The repository pins no version of pandas, and the behaviour of four library calls that
  \<^verbatim>\<open>clean_transaction_data\<close> makes is not the repository's to fix. They are the fields
  of a record \<open>lib\<close> that the model takes as a parameter:

  \<^item> \<open>lib_na_text\<close>: what \<^verbatim>\<open>Series.astype(str)\<close> puts in the place of a missing value.
    pandas 1.x and 2.x put the text \<^verbatim>\<open>nan\<close> (\<open>Some ''nan''\<close>); pandas 3 leaves the value
    missing (\<open>None\<close>).
  \<^item> \<open>lib_parse_date\<close>: what \<^verbatim>\<open>pd.to_datetime\<close> (default \<^verbatim>\<open>errors='raise'\<close>) makes of
    one non-missing cell of a column. It is given the whole column, since pandas 2 and later
    infer one format from the column; the cell becomes a timestamp, becomes \<^verbatim>\<open>NaT\<close>
    (as the text \<^verbatim>\<open>NaT\<close> does), or raises.
  \<^item> \<open>lib_to_numeric\<close>: what \<^verbatim>\<open>pd.to_numeric(..., errors='coerce')\<close> makes of one text
    of a column (\<open>None\<close>: \<^verbatim>\<open>NaN\<close>). It is given the whole column, since the column
    decides between \<^verbatim>\<open>int64\<close> and \<^verbatim>\<open>float64\<close>. The type \<open>'n\<close> of numbers is a
    parameter as well.
  \<^item> \<open>lib_abs\<close> and \<open>lib_positive\<close>: \<^verbatim>\<open>abs\<close> and the comparison \<^verbatim>\<open>> 0\<close> on such a
    number. On \<^verbatim>\<open>int64\<close> the absolute value of the least integer is that integer again.
\<close>

record timestamp =
  ts_year :: nat
  ts_month :: nat
  ts_day :: nat

datatype date_result = Stamp timestamp | NaT | Unparseable

record 'n pandas =
  lib_na_text :: "string option"
  lib_parse_date :: "cell list \<Rightarrow> cell \<Rightarrow> date_result"
  lib_to_numeric :: "string option list \<Rightarrow> string \<Rightarrow> 'n option"
  lib_abs :: "'n \<Rightarrow> 'n"
  lib_positive :: "'n \<Rightarrow> bool"

subsection \<open>Tables and columns\<close>

text \<open>
  A \<^verbatim>\<open>DataFrame\<close> as the readers of lines 78 and 80 build it: a header of column
  names and the rows in file order, each row a map from column names to cells. A column
  name that a row has no cell for reads as the missing value.
\<close>

record dataframe =
  columns :: "string list"
  rows :: "(string \<rightharpoonup> cell) list"

definition cell_at :: "(string \<rightharpoonup> cell) \<Rightarrow> string \<Rightarrow> cell" where
  "cell_at r c = (case r c of None \<Rightarrow> Null | Some v \<Rightarrow> v)"

text \<open>
  The exceptions that the body of \<^verbatim>\<open>clean_transaction_data\<close> can raise in this model.
  The handler of lines 123-124 turns each into the result
  \<^verbatim>\<open>(None, "Error processing data: ...")\<close>, which is the \<open>Inl\<close> side of the result type.
\<close>

datatype exn = KeyError string | DateParseError cell

text \<open>\<^verbatim>\<open>df[col]\<close>: the column, or \<^verbatim>\<open>KeyError\<close> for a name that is not in the header.\<close>

definition get_column :: "dataframe \<Rightarrow> string \<Rightarrow> exn + cell list" where
  "get_column df col =
     (if col \<in> set (columns df) then Inr (map (\<lambda>r. cell_at r col) (rows df))
      else Inl (KeyError col))"

text \<open>
  \<^verbatim>\<open>Series.astype(str)\<close> on one element: a text or a number becomes its \<^verbatim>\<open>str()\<close>, a
  missing value what the installed pandas makes of it. The result is a text or missing.
\<close>

definition astype_str :: "'n pandas \<Rightarrow> cell \<Rightarrow> string option" where
  "astype_str lib c = (if c = Null then lib_na_text lib else Some (py_str c))"

text \<open>An element of a stringified column as the Python value that \<^verbatim>\<open>Series.apply\<close> hands
  to \<^verbatim>\<open>clean_description\<close>.\<close>

definition str_value :: "string option \<Rightarrow> cell" where
  "str_value s = (case s of None \<Rightarrow> Null | Some t \<Rightarrow> Text t)"

definition zero_pad :: "nat \<Rightarrow> string \<Rightarrow> string" where
  "zero_pad n s = replicate (n - length s) CHR ''0'' @ s"

text \<open>\<^verbatim>\<open>strftime('%Y-%m-%d')\<close>.\<close>

definition strftime :: "timestamp \<Rightarrow> string" where
  "strftime t =
     zero_pad 4 (str_nat (ts_year t)) @ ''-'' @ zero_pad 2 (str_nat (ts_month t)) @ ''-''
       @ zero_pad 2 (str_nat (ts_day t))"

text \<open>
  \<^verbatim>\<open>pd.to_datetime(column)\<close>: a missing cell becomes \<^verbatim>\<open>NaT\<close> (\<open>None\<close> in the result
  column), any other cell is parsed by the library in the context of the whole column, and
  one cell that raises ends the conversion of the column.
\<close>

definition to_datetime_cell :: "'n pandas \<Rightarrow> cell list \<Rightarrow> cell \<Rightarrow> exn + timestamp option" where
  "to_datetime_cell lib col c =
     (if c = Null then Inr None
      else case lib_parse_date lib col c of
             Stamp t \<Rightarrow> Inr (Some t)
           | NaT \<Rightarrow> Inr None
           | Unparseable \<Rightarrow> Inl (DateParseError c))"

fun to_datetime_cells :: "'n pandas \<Rightarrow> cell list \<Rightarrow> cell list \<Rightarrow> exn + timestamp option list" where
  "to_datetime_cells lib col [] = Inr []"
| "to_datetime_cells lib col (c # cs) =
     (case to_datetime_cell lib col c of
        Inl e \<Rightarrow> Inl e
      | Inr t \<Rightarrow>
          (case to_datetime_cells lib col cs of Inl e \<Rightarrow> Inl e | Inr ts \<Rightarrow> Inr (t # ts)))"

definition to_datetime :: "'n pandas \<Rightarrow> cell list \<Rightarrow> exn + timestamp option list" where
  "to_datetime lib col = to_datetime_cells lib col col"

text \<open>\<^verbatim>\<open>Series.str.replace(c, repl, regex=False)\<close> on one text: every occurrence.\<close>

definition str_replace :: "char \<Rightarrow> string \<Rightarrow> string \<Rightarrow> string" where
  "str_replace c repl s = concat (map (\<lambda>x. if x = c then repl else [x]) s)"

text \<open>
  Lines 100-105 on one amount cell: the text handed to \<^verbatim>\<open>pd.to_numeric\<close>. The
  \<^verbatim>\<open>.str\<close> methods leave a missing element missing.
\<close>

definition amount_text :: "'n pandas \<Rightarrow> cell \<Rightarrow> string option" where
  "amount_text lib c =
     map_option
       (\<lambda>s. strip (str_replace CHR '')'' [] (str_replace CHR ''('' ''-''
               (str_replace CHR '','' [] (str_replace CHR ''$'' [] s)))))
       (astype_str lib c)"

text \<open>\<^verbatim>\<open>pd.to_numeric(column, errors='coerce')\<close>: a missing element stays missing.\<close>

definition to_numeric :: "'n pandas \<Rightarrow> string option list \<Rightarrow> 'n option list" where
  "to_numeric lib col =
     map (\<lambda>s. case s of None \<Rightarrow> None | Some t \<Rightarrow> lib_to_numeric lib col t) col"

subsection \<open>clean_transaction_data\<close>

text \<open>
  A row of \<^verbatim>\<open>clean_df\<close>, and a row of the returned frame. A date or an amount can be
  missing in \<^verbatim>\<open>clean_df\<close>; a stringified description or category is missing only where
  the library leaves it so.
\<close>

record 'n clean_row =
  row_date :: "string option"
  row_raw_description :: "string option"
  row_description :: string
  row_amount :: "'n option"
  row_category :: "string option"

record 'n transaction =
  date :: "string option"
  description :: string
  amount :: "'n option"
  category :: "string option"

definition frame_rows ::
  "string option list \<Rightarrow> string option list \<Rightarrow> string list \<Rightarrow> 'n option list
    \<Rightarrow> string option list \<Rightarrow> 'n clean_row list" where
  "frame_rows ds rs ss as cs =
     map (\<lambda>(d, r, s, a, c).
            \<lparr>row_date = d, row_raw_description = r, row_description = s, row_amount = a,
             row_category = c\<rparr>)
       (zip ds (zip rs (zip ss (zip as cs))))"

text \<open>\<^verbatim>\<open>clean_df[['date', 'description', 'amount', 'category']]\<close> on one row.\<close>

definition select_columns :: "'n clean_row \<Rightarrow> 'n transaction" where
  "select_columns r =
     \<lparr>date = row_date r, description = row_description r, amount = row_amount r,
      category = row_category r\<rparr>"

text \<open>
  Lines 110-113. \<open>category_col\<close> is \<open>None\<close> for Python's \<^verbatim>\<open>None\<close>; the test
  \<^verbatim>\<open>if category_col and category_col in df.columns\<close> is false for \<^verbatim>\<open>None\<close>, for the
  empty name and for a name that is not in the header.
\<close>

definition category_column :: "'n pandas \<Rightarrow> dataframe \<Rightarrow> string option \<Rightarrow> string option list" where
  "category_column lib df category_col =
     (case category_col of
        None \<Rightarrow> replicate (length (rows df)) (Some ''Uncategorized'')
      | Some c \<Rightarrow>
          if c \<noteq> [] \<and> c \<in> set (columns df)
          then map (\<lambda>r. map_option strip (astype_str lib (cell_at r c))) (rows df)
          else replicate (length (rows df)) (Some ''Uncategorized''))"

text \<open>The three filters of lines 116-118. A comparison with \<^verbatim>\<open>NaN\<close> is false.\<close>

definition not_na :: "'n clean_row \<Rightarrow> bool" where
  "not_na r = (row_date r \<noteq> None \<and> row_amount r \<noteq> None)"

definition amount_positive :: "'n pandas \<Rightarrow> 'n clean_row \<Rightarrow> bool" where
  "amount_positive lib r = (case row_amount r of None \<Rightarrow> False | Some a \<Rightarrow> lib_positive lib a)"

definition description_not_empty :: "'n clean_row \<Rightarrow> bool" where
  "description_not_empty r = (row_description r \<noteq> [])"

text \<open>
  \<^verbatim>\<open>clean_transaction_data\<close> (lines 88-124), statement by statement, over the library
  \<open>lib\<close>. An exception raised by a statement ends the call with the error result.
\<close>

definition clean_transaction_data ::
  "'n pandas \<Rightarrow> dataframe \<Rightarrow> string \<Rightarrow> string \<Rightarrow> string \<Rightarrow> string option
    \<Rightarrow> exn + 'n transaction list" where
  "clean_transaction_data lib df date_col desc_col amount_col category_col =
     (case get_column df date_col of Inl e \<Rightarrow> Inl e | Inr date_cells \<Rightarrow>
     (case to_datetime lib date_cells of Inl e \<Rightarrow> Inl e | Inr stamps \<Rightarrow>
     (case get_column df desc_col of Inl e \<Rightarrow> Inl e | Inr desc_cells \<Rightarrow>
     (case get_column df amount_col of Inl e \<Rightarrow> Inl e | Inr amount_cells \<Rightarrow>
       (let dates = map (map_option strftime) stamps;
            raw_descriptions = map (astype_str lib) desc_cells;
            descriptions = map (\<lambda>s. clean_description (str_value s)) raw_descriptions;
            amounts = map (amount_text lib) amount_cells;
            abs_amounts = map (map_option (lib_abs lib)) (to_numeric lib amounts);
            categories = category_column lib df category_col;
            clean_df = frame_rows dates raw_descriptions descriptions abs_amounts categories;
            clean_df = filter not_na clean_df;
            clean_df = filter (amount_positive lib) clean_df;
            clean_df = filter description_not_empty clean_df
        in Inr (map select_columns clean_df))))))"

subsection \<open>A reference library for concrete runs\<close>

text \<open>
  Concrete runs below use a library over the rationals: exact arithmetic, a parser of plain
  decimal numerals, and a date parser that reads the shape \<^verbatim>\<open>MM/DD/YYYY\<close> and the texts
  pandas takes for a missing date, with the values pandas gives them. On everything else
  these parsers answer that the text cannot be parsed; the concrete runs apply them, beyond
  texts of these shapes, only to the texts \<^verbatim>\<open>abc\<close>, \<^verbatim>\<open>nan\<close> and \<^verbatim>\<open>bad-date\<close>, which
  pandas does not parse either. \<open>reference_pandas\<close> stringifies a missing value as pandas
  1.x and 2.x do, \<open>reference_pandas3\<close> as pandas 3 does.
\<close>

definition is_digit :: "char \<Rightarrow> bool" where
  "is_digit c = (48 \<le> (of_char c :: nat) \<and> (of_char c :: nat) \<le> 57)"

definition nat_of_digits :: "string \<Rightarrow> nat" where
  "nat_of_digits s = foldl (\<lambda>a c. 10 * a + ((of_char c :: nat) - 48)) 0 s"

definition parse_unsigned :: "string \<Rightarrow> rat option" where
  "parse_unsigned s =
     (let ip = takeWhile is_digit s; rest = dropWhile is_digit s
      in case rest of
           [] \<Rightarrow> if ip = [] then None else Some (of_nat (nat_of_digits ip))
         | c # fp \<Rightarrow>
             if c = CHR ''.'' \<and> list_all is_digit fp \<and> \<not> (ip = [] \<and> fp = [])
             then Some (of_nat (nat_of_digits ip) + of_nat (nat_of_digits fp) / 10 ^ length fp)
             else None)"

definition decimal_to_numeric :: "string \<Rightarrow> rat option" where
  "decimal_to_numeric s =
     (case s of
        [] \<Rightarrow> None
      | c # cs \<Rightarrow>
          if c = CHR ''-'' then map_option uminus (parse_unsigned cs)
          else if c = CHR ''+'' then parse_unsigned cs
          else parse_unsigned s)"

definition days_in_month :: "nat \<Rightarrow> nat \<Rightarrow> nat" where
  "days_in_month y m =
     (if m = 2
      then (if y mod 400 = 0 then 29 else if y mod 100 = 0 then 28
            else if y mod 4 = 0 then 29 else 28)
      else if m = 4 \<or> m = 6 \<or> m = 9 \<or> m = 11 then 30 else 31)"

definition mk_timestamp :: "nat \<Rightarrow> nat \<Rightarrow> nat \<Rightarrow> date_result" where
  "mk_timestamp y m d =
     (if 1678 \<le> y \<and> y \<le> 2261 \<and> 1 \<le> m \<and> m \<le> 12 \<and> 1 \<le> d \<and> d \<le> days_in_month y m
      then Stamp \<lparr>ts_year = y, ts_month = m, ts_day = d\<rparr> else Unparseable)"

definition simple_parse_date :: "cell \<Rightarrow> date_result" where
  "simple_parse_date c =
     (case c of
        Text s \<Rightarrow>
          if s \<in> set [[], ''NaT'', ''nat'', ''NAT'', ''nan'', ''NaN'', ''NAN''] then NaT
          else if length s = 10 \<and> s ! 2 = CHR ''/'' \<and> s ! 5 = CHR ''/''
             \<and> list_all is_digit (take 2 s @ take 2 (drop 3 s) @ drop 6 s)
          then mk_timestamp (nat_of_digits (drop 6 s)) (nat_of_digits (take 2 s))
                 (nat_of_digits (take 2 (drop 3 s)))
          else Unparseable
      | _ \<Rightarrow> Unparseable)"

definition reference_pandas :: "rat pandas" where
  "reference_pandas =
     \<lparr>lib_na_text = Some ''nan'',
      lib_parse_date = (\<lambda>col. simple_parse_date),
      lib_to_numeric = (\<lambda>col. decimal_to_numeric),
      lib_abs = abs,
      lib_positive = (\<lambda>q. 0 < q)\<rparr>"

definition reference_pandas3 :: "rat pandas" where
  "reference_pandas3 = reference_pandas\<lparr>lib_na_text := None\<rparr>"

subsection \<open>The normalizer as the specification words it\<close>

text \<open>
  The specification describes a normalizer that removes the first matching pattern of the
  list and no other. \<open>remove_first_prefix\<close> and \<open>normalize_first_match\<close> follow those
  words, for comparison with \<open>remove_prefixes\<close> and \<open>clean_description\<close>.
\<close>

fun remove_first_prefix :: "string list \<Rightarrow> string \<Rightarrow> string" where
  "remove_first_prefix [] text = text"
| "remove_first_prefix (p # ps) text =
     (case match_prefix p text of Some rest \<Rightarrow> rest | None \<Rightarrow> remove_first_prefix ps text)"

definition normalize_first_match :: "cell \<Rightarrow> string" where
  "normalize_first_match raw =
     (if raw = Null \<or> raw = Text [] then []
      else join_sp (split_ws (remove_first_prefix prefixes_to_remove (strip (py_str raw)))))"

text \<open>
  \<open>single_removal ps text\<close>: going through the patterns \<open>ps\<close> in order, the text left
  by the first pattern that matches begins with none of the patterns listed after it.
\<close>

fun single_removal :: "string list \<Rightarrow> string \<Rightarrow> bool" where
  "single_removal [] text = True"
| "single_removal (p # ps) text =
     (case match_prefix p text of
        Some rest \<Rightarrow> list_all (\<lambda>q. match_prefix q rest = None) ps
      | None \<Rightarrow> single_removal ps text)"

text \<open>The text begins with none of the listed prefixes.\<close>

definition no_prefix :: "string \<Rightarrow> bool" where
  "no_prefix text = list_all (\<lambda>p. match_prefix p text = None) prefixes_to_remove"

subsection \<open>The pipeline read row by row\<close>

text \<open>
  The source computes whole columns. The functions below give, for one source row of a
  table, the values its row of \<^verbatim>\<open>clean_df\<close> holds, whether the three filters keep it,
  and the record it contributes. The library sees the row's date and amount within the
  table's date and amount columns. \<open>pipeline_rowwise\<close> below proves that a successful
  call returns exactly the records of the kept rows, in row order.
\<close>

definition date_column :: "dataframe \<Rightarrow> string \<Rightarrow> cell list" where
  "date_column df date_col = map (\<lambda>r. cell_at r date_col) (rows df)"

definition amount_column :: "'n pandas \<Rightarrow> dataframe \<Rightarrow> string \<Rightarrow> string option list" where
  "amount_column lib df amount_col = map (\<lambda>r. amount_text lib (cell_at r amount_col)) (rows df)"

definition date_of_cell :: "'n pandas \<Rightarrow> cell list \<Rightarrow> cell \<Rightarrow> string option" where
  "date_of_cell lib col c =
     (if c = Null then None
      else case lib_parse_date lib col c of
             Stamp t \<Rightarrow> Some (strftime t)
           | NaT \<Rightarrow> None
           | Unparseable \<Rightarrow> None)"

definition amount_of_text :: "'n pandas \<Rightarrow> string option list \<Rightarrow> string option \<Rightarrow> 'n option" where
  "amount_of_text lib col s =
     (case s of None \<Rightarrow> None | Some t \<Rightarrow> map_option (lib_abs lib) (lib_to_numeric lib col t))"

definition category_of :: "'n pandas \<Rightarrow> dataframe \<Rightarrow> string option \<Rightarrow> (string \<rightharpoonup> cell) \<Rightarrow> string option" where
  "category_of lib df category_col r =
     (case category_col of
        None \<Rightarrow> Some ''Uncategorized''
      | Some c \<Rightarrow>
          if c \<noteq> [] \<and> c \<in> set (columns df) then map_option strip (astype_str lib (cell_at r c))
          else Some ''Uncategorized'')"

definition clean_row_of ::
  "'n pandas \<Rightarrow> dataframe \<Rightarrow> string \<Rightarrow> string \<Rightarrow> string \<Rightarrow> string option
    \<Rightarrow> (string \<rightharpoonup> cell) \<Rightarrow> 'n clean_row" where
  "clean_row_of lib df date_col desc_col amount_col category_col r =
     \<lparr>row_date = date_of_cell lib (date_column df date_col) (cell_at r date_col),
      row_raw_description = astype_str lib (cell_at r desc_col),
      row_description = clean_description (str_value (astype_str lib (cell_at r desc_col))),
      row_amount = amount_of_text lib (amount_column lib df amount_col)
                     (amount_text lib (cell_at r amount_col)),
      row_category = category_of lib df category_col r\<rparr>"

definition row_kept ::
  "'n pandas \<Rightarrow> dataframe \<Rightarrow> string \<Rightarrow> string \<Rightarrow> string \<Rightarrow> string option
    \<Rightarrow> (string \<rightharpoonup> cell) \<Rightarrow> bool" where
  "row_kept lib df date_col desc_col amount_col category_col r =
     (let cr = clean_row_of lib df date_col desc_col amount_col category_col r
      in not_na cr \<and> amount_positive lib cr \<and> description_not_empty cr)"

definition row_transaction ::
  "'n pandas \<Rightarrow> dataframe \<Rightarrow> string \<Rightarrow> string \<Rightarrow> string \<Rightarrow> string option
    \<Rightarrow> (string \<rightharpoonup> cell) \<Rightarrow> 'n transaction" where
  "row_transaction lib df date_col desc_col amount_col category_col r =
     select_columns (clean_row_of lib df date_col desc_col amount_col category_col r)"

subsection \<open>Example statements\<close>

text \<open>
  Tables for the concrete runs. All have the header \<^verbatim>\<open>date, desc, amt\<close>, the last one
  a fourth column \<^verbatim>\<open>cat\<close>. \<open>statement_example\<close> is the end-to-end scenario of the
  specification.
\<close>

definition statement_row :: "cell \<Rightarrow> cell \<Rightarrow> cell \<Rightarrow> (string \<rightharpoonup> cell)" where
  "statement_row d s a = [''date'' \<mapsto> d, ''desc'' \<mapsto> s, ''amt'' \<mapsto> a]"

definition statement :: "(string \<rightharpoonup> cell) list \<Rightarrow> dataframe" where
  "statement rs = \<lparr>columns = [''date'', ''desc'', ''amt''], rows = rs\<rparr>"

definition statement_example :: dataframe where
  "statement_example = statement
     [statement_row (Text ''01/15/2024'') (Text ''TST*JOES DINER'') (Text ''$23.45''),
      statement_row (Text ''bad-date'') (Text ''X'') (Text ''$5''),
      statement_row (Text ''01/16/2024'') (Text ''POS WALMART'') (Text ''(10.00)'')]"

definition statement_bad_amount :: dataframe where
  "statement_bad_amount = statement
     [statement_row (Text ''01/15/2024'') (Text ''TST*JOES DINER'') (Text ''$23.45''),
      statement_row (Text ''01/15/2024'') (Text ''X'') (Text ''abc''),
      statement_row (Text ''01/16/2024'') (Text ''POS WALMART'') (Text ''(10.00)'')]"

definition statement_pos_only :: dataframe where
  "statement_pos_only = statement
     [statement_row (Text ''01/15/2024'') (Text ''POS'') (Text ''$5.00''),
      statement_row (Text ''01/16/2024'') (Text ''POS WALMART'') (Text ''(10.00)'')]"

definition statement_all_abc :: dataframe where
  "statement_all_abc = statement
     [statement_row (Text ''01/15/2024'') (Text ''COFFEE'') (Text ''abc''),
      statement_row (Text ''01/16/2024'') (Text ''LUNCH'') (Text ''abc'')]"

definition statement_all_abc_bad_date :: dataframe where
  "statement_all_abc_bad_date = statement
     [statement_row (Text ''bad-date'') (Text ''COFFEE'') (Text ''abc''),
      statement_row (Text ''01/16/2024'') (Text ''LUNCH'') (Text ''abc'')]"

definition statement_amounts :: dataframe where
  "statement_amounts = statement
     [statement_row (Text ''01/15/2024'') (Text ''RENT'') (Text ''$1,234.56''),
      statement_row (Text ''01/16/2024'') (Text ''REFUND'') (Text ''(45.00)''),
      statement_row (Text ''01/17/2024'') (Text ''LUNCH'') (Text ''12.5 ''),
      statement_row (Text ''01/18/2024'') (Text ''FEE'') (Text ''abc''),
      statement_row (Text ''01/19/2024'') (Text ''VOID'') (Text ''0.00'')]"

definition statement_missing_description :: dataframe where
  "statement_missing_description = statement
     [statement_row (Text ''01/15/2024'') Null (Text ''$5.00''),
      statement_row (Text ''01/16/2024'') (Text ''POS WALMART'') (Text ''(10.00)'')]"

definition statement_with_category :: dataframe where
  "statement_with_category =
     \<lparr>columns = [''date'', ''desc'', ''amt'', ''cat''],
      rows = [(statement_row (Text ''01/15/2024'') (Text ''COFFEE'') (Text ''$3.50''))
                (''cat'' \<mapsto> Text '' Food ''),
              (statement_row (Text ''01/16/2024'') (Text ''LUNCH'') (Text ''$12.00''))
                (''cat'' \<mapsto> Text ''   '')]\<rparr>"

section \<open>Properties of the description cleaner\<close>

subsection \<open>Concrete runs\<close>

text \<open>
  The defining equations that a run on a concrete table unfolds. The simplifier evaluates
  such a run inside the kernel.
\<close>

lemmas run_simps =
  clean_description_def normalize_first_match_def no_prefix_def prefixes_to_remove_def
  strip_def is_space_def re_sub_def match_prefix_def lower_def split_ws_def
  clean_transaction_data_def get_column_def cell_at_def astype_str_def str_value_def
  to_datetime_def to_datetime_cell_def to_numeric_def strftime_def
  zero_pad_def str_nat.simps str_int_def str_replace_def amount_text_def frame_rows_def
  select_columns_def category_column_def not_na_def amount_positive_def
  description_not_empty_def decimal_to_numeric_def parse_unsigned_def is_digit_def
  nat_of_digits_def days_in_month_def mk_timestamp_def simple_parse_date_def
  reference_pandas_def reference_pandas3_def
  statement_def statement_row_def statement_example_def statement_bad_amount_def
  statement_pos_only_def statement_all_abc_def statement_all_abc_bad_date_def
  statement_amounts_def statement_missing_description_def statement_with_category_def
  Let_def

subsection \<open>Prefix removal and lengths\<close>

lemma remove_prefixes_no_match:
  "list_all (\<lambda>p. match_prefix p t = None) ps \<Longrightarrow> remove_prefixes ps t = t"
  by (induction ps) (simp_all add: re_sub_def)

lemma remove_prefixes_single:
  "single_removal ps t \<Longrightarrow> remove_prefixes ps t = remove_first_prefix ps t"
  by (induction ps arbitrary: t)
     (auto simp: re_sub_def remove_prefixes_no_match split: option.splits)

lemma match_literal_length:
  "match_literal p s = Some rest \<Longrightarrow> length rest + length p = length s"
  by (induction p s rule: match_literal.induct) (auto split: if_splits)

lemma match_prefix_length:
  "match_prefix p s = Some rest \<Longrightarrow> length rest + length p \<le> length s"
proof -
  assume "match_prefix p s = Some rest"
  then obtain m where m: "match_literal p s = Some m" and r: "rest = dropWhile is_space m"
    by (auto simp: match_prefix_def)
  have "length (dropWhile is_space m) \<le> length m" by (rule length_dropWhile_le)
  with match_literal_length [OF m] r show ?thesis by simp
qed

lemma re_sub_length: "length (re_sub p t) \<le> length t"
  using match_prefix_length [of p t] by (auto simp: re_sub_def split: option.splits)

lemma remove_prefixes_length: "length (remove_prefixes ps t) \<le> length t"
proof (induction ps arbitrary: t)
  case Nil
  then show ?case by simp
next
  case (Cons p ps)
  have "length (remove_prefixes ps (re_sub p t)) \<le> length (re_sub p t)" by (rule Cons.IH)
  also have "\<dots> \<le> length t" by (rule re_sub_length)
  finally show ?case by simp
qed

lemma remove_prefixes_shorter:
  "list_all (\<lambda>p. p \<noteq> []) ps \<Longrightarrow> \<not> list_all (\<lambda>p. match_prefix p t = None) ps \<Longrightarrow>
     length (remove_prefixes ps t) < length t"
proof (induction ps arbitrary: t)
  case Nil
  then show ?case by simp
next
  case (Cons p ps)
  show ?case
  proof (cases "match_prefix p t")
    case None
    with Cons show ?thesis by (simp add: re_sub_def)
  next
    case (Some rest)
    from Cons.prems(1) have "p \<noteq> []" by simp
    with match_prefix_length [OF Some] have "length rest < length t"
      by (cases p) auto
    moreover have "length (remove_prefixes ps rest) \<le> length rest"
      by (rule remove_prefixes_length)
    ultimately show ?thesis using Some by (simp add: re_sub_def)
  qed
qed

lemma join_sp_Cons_length: "length (join_sp (w # ws)) \<le> length w + 1 + length (join_sp ws)"
  by (cases ws) simp_all

lemma join_split_acc_length: "length (join_sp (split_acc w s)) \<le> length w + length s"
proof (induction s arbitrary: w)
  case Nil
  then show ?case by simp
next
  case (Cons c s)
  show ?case
  proof (cases "is_space c")
    case False
    with Cons.IH [of "w @ [c]"] show ?thesis by simp
  next
    case True
    have a: "length (join_sp (split_acc [] s)) \<le> length s" using Cons.IH [of "[]"] by simp
    show ?thesis
    proof (cases "w = []")
      case True
      with \<open>is_space c\<close> a show ?thesis by simp
    next
      case False
      have "length (join_sp (w # split_acc [] s)) \<le> length w + 1 + length (join_sp (split_acc [] s))"
        by (rule join_sp_Cons_length)
      with a False \<open>is_space c\<close> show ?thesis by simp
    qed
  qed
qed

lemma collapse_length: "length (join_sp (split_ws t)) \<le> length t"
  using join_split_acc_length [of "[]" t] by (simp add: split_ws_def)

lemma prefixes_nonempty: "list_all (\<lambda>p. p \<noteq> []) prefixes_to_remove"
  by (simp add: prefixes_to_remove_def)

lemma no_prefix_Nil: "no_prefix []"
  by (simp add: no_prefix_def prefixes_to_remove_def match_prefix_def)

subsection \<open>Whitespace collapsing\<close>

lemma split_acc_words:
  "\<not> list_ex is_space w \<Longrightarrow> list_all (\<lambda>v. v \<noteq> [] \<and> \<not> list_ex is_space v) (split_acc w s)"
  by (induction s arbitrary: w) simp_all

lemma split_acc_nospace:
  "\<not> list_ex is_space v \<Longrightarrow> split_acc w (v @ s) = split_acc (w @ v) s"
  by (induction v arbitrary: w) auto

lemma split_join:
  "list_all (\<lambda>v. v \<noteq> [] \<and> \<not> list_ex is_space v) ws \<Longrightarrow> split_acc [] (join_sp ws) = ws"
proof (induction ws rule: join_sp.induct)
  case 1
  then show ?case by simp
next
  case (2 w)
  then show ?case using split_acc_nospace [of w "[]" "[]"] by simp
next
  case (3 w v ws)
  have sp: "is_space CHR '' ''" by (simp add: is_space_def)
  from 3 show ?case
    using split_acc_nospace [of w "[]" "CHR '' '' # join_sp (v # ws)"] sp by simp
qed

lemma join_ends:
  "list_all (\<lambda>v. v \<noteq> [] \<and> \<not> list_ex is_space v) ws \<Longrightarrow> ws \<noteq> [] \<Longrightarrow>
     join_sp ws \<noteq> [] \<and> \<not> is_space (hd (join_sp ws)) \<and> \<not> is_space (last (join_sp ws))"
proof (induction ws rule: join_sp.induct)
  case 1
  then show ?case by simp
next
  case (2 w)
  then show ?case by (cases w) (auto simp: list_ex_iff)
next
  case (3 w v ws)
  then show ?case by (cases w) (auto simp: list_ex_iff)
qed

lemma strip_ends:
  "s = [] \<or> (\<not> is_space (hd s) \<and> \<not> is_space (last s)) \<Longrightarrow> strip s = s"
proof (cases s)
  case Nil
  then show ?thesis by (simp add: strip_def)
next
  case (Cons a as)
  assume "s = [] \<or> (\<not> is_space (hd s) \<and> \<not> is_space (last s))"
  with Cons have h: "\<not> is_space (hd s)" and l: "\<not> is_space (last s)" by auto
  from Cons h have 1: "dropWhile is_space s = s" by simp
  from Cons l have 2: "dropWhile is_space (rev s) = rev s"
    by (metis dropWhile_eq_self_iff hd_rev)
  show ?thesis by (simp add: strip_def 1 2)
qed

lemma collapse_fixed:
  "strip (join_sp (split_ws t)) = join_sp (split_ws t) \<and>
   join_sp (split_ws (join_sp (split_ws t))) = join_sp (split_ws t)"
proof -
  have w: "list_all (\<lambda>v. v \<noteq> [] \<and> \<not> list_ex is_space v) (split_ws t)"
    using split_acc_words [of "[]" t] by (simp add: split_ws_def)
  have a: "join_sp (split_ws (join_sp (split_ws t))) = join_sp (split_ws t)"
    using split_join [OF w] by (simp add: split_ws_def)
  have b: "strip (join_sp (split_ws t)) = join_sp (split_ws t)"
  proof (cases "split_ws t = []")
    case True
    then show ?thesis by (simp add: strip_def)
  next
    case False
    then show ?thesis using join_ends [OF w False] strip_ends by blast
  qed
  from a b show ?thesis by simp
qed

lemma clean_description_shape:
  "clean_description c = [] \<or> (\<exists>t. clean_description c = join_sp (split_ws t))"
  by (auto simp: clean_description_def)

lemma clean_description_again:
  assumes "clean_description c \<noteq> []"
  shows "clean_description (Text (clean_description c)) =
         join_sp (split_ws (remove_prefixes prefixes_to_remove (clean_description c)))"
proof -
  from assms clean_description_shape [of c] obtain t
    where t: "clean_description c = join_sp (split_ws t)" by blast
  have "strip (clean_description c) = clean_description c"
    using collapse_fixed [of t] t by simp
  with assms show ?thesis by (simp add: clean_description_def)
qed

subsection \<open>Idempotence\<close>

text \<open>
  Claim C2, as the code has it: cleaning a cleaned description changes nothing exactly
  when the cleaned description begins with none of the seven prefixes. A cleaned description
  that still begins with one loses it in the second application.
\<close>

theorem clean_description_idempotent_iff:
  "clean_description (Text (clean_description c)) = clean_description c
     \<longleftrightarrow> no_prefix (clean_description c)"
proof (cases "clean_description c = []")
  case True
  then show ?thesis by (simp add: clean_description_def no_prefix_Nil)
next
  case False
  note again = clean_description_again [OF False]
  from False clean_description_shape [of c] obtain t
    where t: "clean_description c = join_sp (split_ws t)" by blast
  show ?thesis
  proof
    assume fixed: "clean_description (Text (clean_description c)) = clean_description c"
    show "no_prefix (clean_description c)"
    proof (rule ccontr)
      assume "\<not> no_prefix (clean_description c)"
      then have "length (remove_prefixes prefixes_to_remove (clean_description c))
                   < length (clean_description c)"
        using remove_prefixes_shorter [OF prefixes_nonempty] by (simp add: no_prefix_def)
      moreover have "length (clean_description (Text (clean_description c)))
                   \<le> length (remove_prefixes prefixes_to_remove (clean_description c))"
        unfolding again by (rule collapse_length)
      ultimately show False using fixed by simp
    qed
  next
    assume "no_prefix (clean_description c)"
    then have "remove_prefixes prefixes_to_remove (clean_description c) = clean_description c"
      using remove_prefixes_no_match by (simp add: no_prefix_def)
    with again t collapse_fixed [of t] show
      "clean_description (Text (clean_description c)) = clean_description c" by simp
  qed
qed

theorem clean_description_idempotent_witness:
  "clean_description (Text (clean_description (Text ''  SQ *   Coffee  Shop ''))) =
     clean_description (Text ''  SQ *   Coffee  Shop '')"
proof -
  have "clean_description (Text ''  SQ *   Coffee  Shop '') = ''Coffee Shop''"
    by (simp add: run_simps del: not_None_eq)
  moreover have "no_prefix ''Coffee Shop''"
    by (simp add: run_simps del: not_None_eq)
  ultimately show ?thesis
    using clean_description_idempotent_iff [of "Text ''  SQ *   Coffee  Shop ''"] by simp
qed

theorem clean_description_not_idempotent:
  "clean_description (Text (clean_description (Text ''DEBIT POS WALMART'')))
     \<noteq> clean_description (Text ''DEBIT POS WALMART'') \<and>
   clean_description (Text ''DEBIT POS WALMART'') = ''POS WALMART'' \<and>
   clean_description (Text ''POS WALMART'') = ''WALMART''"
  by (simp add: run_simps)

subsection \<open>How many prefixes one call removes\<close>

text \<open>
  Claim C3, as the code has it: the loop tries every pattern, each on the text the earlier
  ones left. The result is the removal of the first matching prefix alone whenever the text
  left by that removal begins with none of the patterns listed after it.
\<close>

theorem clean_description_single_removal:
  "single_removal prefixes_to_remove (strip (py_str c))
     \<Longrightarrow> clean_description c = normalize_first_match c"
  by (simp add: clean_description_def normalize_first_match_def remove_prefixes_single)

theorem clean_description_single_removal_witness:
  "single_removal prefixes_to_remove (strip (py_str (Text ''TST*LAKEWOOD TRUCK PA''))) \<and>
   clean_description (Text ''TST*LAKEWOOD TRUCK PA'') =
     normalize_first_match (Text ''TST*LAKEWOOD TRUCK PA'') \<and>
   normalize_first_match (Text ''TST*LAKEWOOD TRUCK PA'') = ''LAKEWOOD TRUCK PA''"
proof -
  have h: "single_removal prefixes_to_remove (strip (py_str (Text ''TST*LAKEWOOD TRUCK PA'')))"
    by (simp add: run_simps del: not_None_eq)
  moreover have "normalize_first_match (Text ''TST*LAKEWOOD TRUCK PA'') = ''LAKEWOOD TRUCK PA''"
    by (simp add: run_simps del: not_None_eq)
  ultimately show ?thesis
    using clean_description_single_removal [OF h] by simp
qed

theorem clean_description_removes_two_prefixes:
  "clean_description (Text ''TST*POS WALMART'') \<noteq> normalize_first_match (Text ''TST*POS WALMART'') \<and>
   clean_description (Text ''TST*POS WALMART'') = ''WALMART'' \<and>
   normalize_first_match (Text ''TST*POS WALMART'') = ''POS WALMART''"
  by (simp add: run_simps)

section \<open>Properties of the import pipeline\<close>

subsection \<open>The column computation, row by row\<close>

lemma to_datetime_cells_Inr:
  "to_datetime_cells lib col cs = Inr ts \<Longrightarrow>
     map (map_option strftime) ts = map (date_of_cell lib col) cs \<and>
     list_all (\<lambda>c. c = Null \<or> lib_parse_date lib col c \<noteq> Unparseable) cs"
proof (induction cs arbitrary: ts)
  case Nil
  then show ?case by simp
next
  case (Cons c cs)
  from Cons.prems obtain t ts' where
    t: "to_datetime_cell lib col c = Inr t" and ts': "to_datetime_cells lib col cs = Inr ts'"
    and ts: "ts = t # ts'"
    by (auto split: sum.splits)
  from t have "map_option strftime t = date_of_cell lib col c \<and>
               (c = Null \<or> lib_parse_date lib col c \<noteq> Unparseable)"
    by (auto simp: to_datetime_cell_def date_of_cell_def split: if_splits date_result.splits)
  with Cons.IH [OF ts'] ts show ?case by simp
qed

lemma to_datetime_cells_total:
  "list_all (\<lambda>c. c = Null \<or> lib_parse_date lib col c \<noteq> Unparseable) cs \<Longrightarrow>
     \<exists>ts. to_datetime_cells lib col cs = Inr ts"
proof (induction cs)
  case Nil
  then show ?case by simp
next
  case (Cons c cs)
  then obtain ts where ts: "to_datetime_cells lib col cs = Inr ts" by auto
  from Cons.prems have "\<exists>t. to_datetime_cell lib col c = Inr t"
    by (auto simp: to_datetime_cell_def split: date_result.splits)
  with ts show ?case by auto
qed

lemma category_column_rows:
  "category_column lib df cc = map (category_of lib df cc) (rows df)"
  by (cases cc) (simp_all add: category_column_def category_of_def [abs_def] map_replicate_const)

lemma frame_rows_map:
  "frame_rows (map f1 xs) (map f2 xs) (map f3 xs) (map f4 xs) (map f5 xs) =
     map (\<lambda>x. \<lparr>row_date = f1 x, row_raw_description = f2 x, row_description = f3 x,
                row_amount = f4 x, row_category = f5 x\<rparr>) xs"
  by (induction xs) (simp_all add: frame_rows_def)

lemma abs_amounts_rows:
  "map (map_option (lib_abs lib)) (to_numeric lib (map f xs)) =
     map (\<lambda>x. amount_of_text lib (map f xs) (f x)) xs"
  by (simp add: to_numeric_def amount_of_text_def comp_def split: option.splits)

lemma pipeline_rowwise:
  assumes "clean_transaction_data lib df dc sc ac cc = Inr out"
  shows "out = map (row_transaction lib df dc sc ac cc) (filter (row_kept lib df dc sc ac cc) (rows df))"
proof -
  let ?dcol = "map (\<lambda>r. cell_at r dc) (rows df)"
  let ?acol = "map (amount_text lib) (map (\<lambda>r. cell_at r ac) (rows df))"
  from assms obtain ts where
    dc: "dc \<in> set (columns df)" and sc: "sc \<in> set (columns df)" and ac: "ac \<in> set (columns df)"
    and ts: "to_datetime_cells lib ?dcol ?dcol = Inr ts"
    by (auto simp: clean_transaction_data_def get_column_def to_datetime_def
        split: if_splits sum.splits)
  have d: "map (map_option strftime) ts =
           map (\<lambda>r. date_of_cell lib (date_column df dc) (cell_at r dc)) (rows df)"
    using to_datetime_cells_Inr [OF ts] by (simp add: comp_def date_column_def)
  have a: "map (map_option (lib_abs lib))
             (to_numeric lib (map (\<lambda>r. amount_text lib (cell_at r ac)) (rows df))) =
           map (\<lambda>r. amount_of_text lib (amount_column lib df ac) (amount_text lib (cell_at r ac)))
             (rows df)"
    using abs_amounts_rows [of lib "\<lambda>r. amount_text lib (cell_at r ac)" "rows df"]
    by (simp add: amount_column_def)
  have fr: "frame_rows (map (map_option strftime) ts)
       (map (astype_str lib) (map (\<lambda>r. cell_at r sc) (rows df)))
       (map (\<lambda>s. clean_description (str_value s))
          (map (astype_str lib) (map (\<lambda>r. cell_at r sc) (rows df))))
       (map (map_option (lib_abs lib)) (to_numeric lib ?acol))
       (category_column lib df cc)
     = map (clean_row_of lib df dc sc ac cc) (rows df)"
    by (simp add: d a category_column_rows comp_def frame_rows_map clean_row_of_def [abs_def])
  have "clean_transaction_data lib df dc sc ac cc =
      Inr (map select_columns (filter description_not_empty (filter (amount_positive lib)
         (filter not_na (map (clean_row_of lib df dc sc ac cc) (rows df))))))"
    using dc sc ac ts fr
    by (simp add: clean_transaction_data_def get_column_def to_datetime_def Let_def)
  with assms have "out = map select_columns (filter description_not_empty
       (filter (amount_positive lib) (filter not_na
          (map (clean_row_of lib df dc sc ac cc) (rows df)))))" by simp
  also have "\<dots> = map (row_transaction lib df dc sc ac cc)
                    (filter (row_kept lib df dc sc ac cc) (rows df))"
    by (simp add: filter_map comp_def row_kept_def [abs_def] row_transaction_def [abs_def]
        Let_def conj_commute conj_left_commute)
  finally show ?thesis .
qed

lemma pipeline_columns:
  assumes "clean_transaction_data lib df dc sc ac cc = Inr out"
  shows "dc \<in> set (columns df) \<and> sc \<in> set (columns df) \<and> ac \<in> set (columns df) \<and>
         list_all (\<lambda>r. cell_at r dc = Null \<or>
                        lib_parse_date lib (date_column df dc) (cell_at r dc) \<noteq> Unparseable)
           (rows df)"
proof -
  let ?dcol = "map (\<lambda>r. cell_at r dc) (rows df)"
  from assms obtain ts where
    dc: "dc \<in> set (columns df)" and sc: "sc \<in> set (columns df)" and ac: "ac \<in> set (columns df)"
    and ts: "to_datetime_cells lib ?dcol ?dcol = Inr ts"
    by (auto simp: clean_transaction_data_def get_column_def to_datetime_def
        split: if_splits sum.splits)
  from to_datetime_cells_Inr [OF ts] have
    "list_all (\<lambda>r. cell_at r dc = Null \<or>
                    lib_parse_date lib (date_column df dc) (cell_at r dc) \<noteq> Unparseable) (rows df)"
    by (simp add: list_all_iff date_column_def)
  with dc sc ac show ?thesis by simp
qed

lemma pipeline_success:
  assumes "dc \<in> set (columns df)" and "sc \<in> set (columns df)" and "ac \<in> set (columns df)"
    and "list_all (\<lambda>r. cell_at r dc = Null \<or>
                        lib_parse_date lib (date_column df dc) (cell_at r dc) \<noteq> Unparseable)
           (rows df)"
  shows "clean_transaction_data lib df dc sc ac cc =
         Inr (map (row_transaction lib df dc sc ac cc)
                (filter (row_kept lib df dc sc ac cc) (rows df)))"
proof -
  let ?dcol = "map (\<lambda>r. cell_at r dc) (rows df)"
  from assms(4) have "list_all (\<lambda>c. c = Null \<or> lib_parse_date lib ?dcol c \<noteq> Unparseable) ?dcol"
    by (simp add: list_all_iff date_column_def)
  from to_datetime_cells_total [OF this] obtain ts
    where ts: "to_datetime_cells lib ?dcol ?dcol = Inr ts" by blast
  with assms(1-3) obtain out where out: "clean_transaction_data lib df dc sc ac cc = Inr out"
    by (simp add: clean_transaction_data_def get_column_def to_datetime_def Let_def)
  from pipeline_rowwise [OF out] out show ?thesis by simp
qed

lemma pipeline_date_failure:
  assumes "r \<in> set (rows df)" and "cell_at r dc \<noteq> Null"
    and "lib_parse_date lib (map (\<lambda>r. cell_at r dc) (rows df)) (cell_at r dc) = Unparseable"
  shows "isl (clean_transaction_data lib df dc sc ac cc)"
proof (cases "clean_transaction_data lib df dc sc ac cc")
  case (Inl e)
  then show ?thesis by simp
next
  case (Inr out)
  from pipeline_columns [OF Inr] assms show ?thesis
    by (auto simp: list_all_iff date_column_def)
qed

lemma row_kept_iff:
  "row_kept lib df dc sc ac cc r \<longleftrightarrow>
     date_of_cell lib (date_column df dc) (cell_at r dc) \<noteq> None \<and>
     (\<exists>t q. amount_text lib (cell_at r ac) = Some t \<and>
            lib_to_numeric lib (amount_column lib df ac) t = Some q \<and>
            lib_positive lib (lib_abs lib q)) \<and>
     clean_description (str_value (astype_str lib (cell_at r sc))) \<noteq> []"
  by (auto simp: row_kept_def clean_row_of_def not_na_def amount_positive_def
      description_not_empty_def amount_of_text_def Let_def split: option.splits)

lemma row_transaction_fields:
  "row_transaction lib df dc sc ac cc r =
     \<lparr>date = date_of_cell lib (date_column df dc) (cell_at r dc),
      description = clean_description (str_value (astype_str lib (cell_at r sc))),
      amount = amount_of_text lib (amount_column lib df ac) (amount_text lib (cell_at r ac)),
      category = category_of lib df cc r\<rparr>"
  by (simp add: row_transaction_def clean_row_of_def select_columns_def)

lemma pipeline_member:
  assumes "clean_transaction_data lib df dc sc ac cc = Inr out" and "t \<in> set out"
  shows "\<exists>r\<in>set (rows df). row_kept lib df dc sc ac cc r \<and> t = row_transaction lib df dc sc ac cc r"
  using pipeline_rowwise [OF assms(1)] assms(2) by auto

lemma pipeline_kept_member:
  assumes "clean_transaction_data lib df dc sc ac cc = Inr out" and "r \<in> set (rows df)"
    and "row_kept lib df dc sc ac cc r"
  shows "row_transaction lib df dc sc ac cc r \<in> set out"
  using pipeline_rowwise [OF assms(1)] assms(2,3) by auto

lemma category_column_absent:
  "c \<notin> set (columns df) \<Longrightarrow> category_column lib df (Some c) = category_column lib df None"
  by (simp add: category_column_def)

lemma all_rows_rejected_success:
  assumes "date_col \<in> set (columns df)" and "desc_col \<in> set (columns df)"
    and "amount_col \<in> set (columns df)"
    and "list_all (\<lambda>r. cell_at r date_col = Null \<or>
            lib_parse_date lib (date_column df date_col) (cell_at r date_col) \<noteq> Unparseable)
           (rows df)"
    and "list_all (\<lambda>r. \<not> row_kept lib df date_col desc_col amount_col category_col r) (rows df)"
  shows "clean_transaction_data lib df date_col desc_col amount_col category_col = Inr []"
  using pipeline_success [OF assms(1-4)] assms(5)
  by (simp add: list_all_iff filter_empty_conv [THEN iffD2])

subsection \<open>Stringified integers and amount texts\<close>

lemma digit_nth:
  assumes "k < 10"
  shows "is_digit (''0123456789'' ! k) \<and> (of_char (''0123456789'' ! k) :: nat) - 48 = k"
proof -
  from assms have "k \<in> {0, 1, 2, 3, 4, 5, 6, 7, 8, 9}" by auto
  then show ?thesis by (auto simp: is_digit_def)
qed

lemma nat_of_digits_snoc:
  "nat_of_digits (s @ [c]) = 10 * nat_of_digits s + ((of_char c :: nat) - 48)"
  by (simp add: nat_of_digits_def)

lemma str_nat_digits:
  "list_all is_digit (str_nat n) \<and> str_nat n \<noteq> [] \<and> nat_of_digits (str_nat n) = n"
proof (induction n rule: str_nat.induct)
  case (1 n)
  show ?case
  proof (cases "n < 10")
    case True
    with digit_nth [OF True] show ?thesis
      by (simp add: str_nat.simps [of n] nat_of_digits_def)
  next
    case False
    have m: "n mod 10 < 10" by simp
    from False 1 digit_nth [OF m] show ?thesis
      by (simp add: str_nat.simps [of n] nat_of_digits_snoc)
  qed
qed

lemma parse_unsigned_digits:
  assumes "list_all is_digit s" and "s \<noteq> []"
  shows "parse_unsigned s = Some (of_nat (nat_of_digits s))"
proof -
  have tw: "takeWhile is_digit s = s" using assms(1) by (simp add: list_all_iff)
  have dw: "dropWhile is_digit s = []" using assms(1) by (simp add: list_all_iff)
  show ?thesis unfolding parse_unsigned_def Let_def tw dw using assms(2) by simp
qed

lemma is_digit_plain:
  "is_digit c \<Longrightarrow> c \<noteq> CHR ''-'' \<and> c \<noteq> CHR ''+'' \<and> c \<noteq> CHR ''$'' \<and> c \<noteq> CHR '','' \<and>
     c \<noteq> CHR ''('' \<and> c \<noteq> CHR '')'' \<and> \<not> is_space c"
  by (auto simp: is_digit_def is_space_def)

lemma decimal_to_numeric_str_int: "decimal_to_numeric (str_int i) = Some (of_int i)"
proof (cases "i < 0")
  case True
  from str_nat_digits [of "nat (- i)"] have
    "parse_unsigned (str_nat (nat (- i))) = Some (of_nat (nat (- i)))"
    by (simp add: parse_unsigned_digits)
  with True show ?thesis by (simp add: decimal_to_numeric_def str_int_def)
next
  case False
  from str_nat_digits [of "nat i"] obtain c cs where
    s: "str_nat (nat i) = c # cs" and d: "is_digit c"
    by (cases "str_nat (nat i)") auto
  from str_nat_digits [of "nat i"] have
    p: "parse_unsigned (str_nat (nat i)) = Some (of_nat (nat i))"
    by (simp add: parse_unsigned_digits)
  from is_digit_plain [OF d] s p False show ?thesis
    by (simp add: decimal_to_numeric_def str_int_def)
qed

lemma str_replace_absent: "c \<notin> set s \<Longrightarrow> str_replace c repl s = s"
  by (induction s) (auto simp: str_replace_def)

lemma str_replace_remove: "str_replace c [] s = filter (\<lambda>x. x \<noteq> c) s"
  by (induction s) (simp_all add: str_replace_def)

lemma str_replace_char: "str_replace c [d] s = map (\<lambda>x. if x = c then d else x) s"
  by (induction s) (simp_all add: str_replace_def)

lemma replaced_text:
  "str_replace CHR '')'' [] (str_replace CHR ''('' ''-''
     (str_replace CHR '','' [] (str_replace CHR ''$'' [] s))) =
   map (\<lambda>c. if c = CHR ''('' then CHR ''-'' else c)
     (filter (\<lambda>c. c \<noteq> CHR ''$'' \<and> c \<noteq> CHR '','' \<and> c \<noteq> CHR '')'') s)"
  unfolding str_replace_remove str_replace_char
  by (induction s) simp_all

lemma str_int_chars: "list_all (\<lambda>c. is_digit c \<or> c = CHR ''-'') (str_int i)"
  using str_nat_digits [of "nat i"] str_nat_digits [of "nat (- i)"]
  by (auto simp: str_int_def list_all_iff)

lemma str_int_nonempty: "str_int i \<noteq> []"
  using str_nat_digits [of "nat i"] by (simp add: str_int_def)

lemma plain_text_unchanged:
  assumes "list_all (\<lambda>c. is_digit c \<or> c = CHR ''-'') s"
  shows "strip (str_replace CHR '')'' [] (str_replace CHR ''('' ''-''
           (str_replace CHR '','' [] (str_replace CHR ''$'' [] s)))) = s"
proof -
  have dash: "\<not> is_space CHR ''-''" by (simp add: is_space_def)
  have plain: "c \<noteq> CHR ''$'' \<and> c \<noteq> CHR '','' \<and> c \<noteq> CHR ''('' \<and>
      c \<noteq> CHR '')'' \<and> \<not> is_space c" if "c \<in> set s" for c
  proof (cases "is_digit c")
    case True
    from is_digit_plain [OF True] show ?thesis by simp
  next
    case False
    with assms that have "c = CHR ''-''" by (auto simp: list_all_iff)
    with dash show ?thesis by simp
  qed
  have "CHR ''$'' \<notin> set s" and "CHR '','' \<notin> set s" and "CHR ''('' \<notin> set s"
    and "CHR '')'' \<notin> set s"
    using plain by blast+
  then have r: "str_replace CHR '')'' [] (str_replace CHR ''('' ''-''
           (str_replace CHR '','' [] (str_replace CHR ''$'' [] s))) = s"
    by (simp add: str_replace_absent)
  have "s = [] \<or> (\<not> is_space (hd s) \<and> \<not> is_space (last s))"
    using plain by (cases s) auto
  from strip_ends [OF this] r show ?thesis by simp
qed

lemma amount_text_Number: "amount_text lib (Number i) = Some (str_int i)"
  using plain_text_unchanged [OF str_int_chars [of i]]
  by (simp add: amount_text_def astype_str_def)

lemma amount_text_Text:
  "amount_text lib (Text s) =
     Some (strip (map (\<lambda>c. if c = CHR ''('' then CHR ''-'' else c)
                    (filter (\<lambda>c. c \<noteq> CHR ''$'' \<and> c \<noteq> CHR '','' \<and> c \<noteq> CHR '')'') s)))"
  by (simp add: amount_text_def astype_str_def replaced_text)

subsection \<open>Libraries that parse each cell on its own\<close>

text \<open>
  When the library's parsers do not look at the rest of the column, a row that the filters
  drop can be taken out of the table without changing the result of a successful call.
\<close>

lemma row_local_rows_update:
  assumes "\<forall>col col' c. lib_parse_date lib col c = lib_parse_date lib col' c"
    and "\<forall>col col' t. lib_to_numeric lib col t = lib_to_numeric lib col' t"
  shows "clean_row_of lib (df\<lparr>rows := rs\<rparr>) dc sc ac cc r = clean_row_of lib (df\<lparr>rows := rs'\<rparr>) dc sc ac cc r"
proof -
  have d: "date_of_cell lib (date_column (df\<lparr>rows := rs\<rparr>) dc) (cell_at r dc) =
           date_of_cell lib (date_column (df\<lparr>rows := rs'\<rparr>) dc) (cell_at r dc)"
    using assms(1) [rule_format, of "date_column (df\<lparr>rows := rs\<rparr>) dc" "cell_at r dc"
        "date_column (df\<lparr>rows := rs'\<rparr>) dc"]
    by (simp add: date_of_cell_def)
  have a: "amount_of_text lib (amount_column lib (df\<lparr>rows := rs\<rparr>) ac) (amount_text lib (cell_at r ac)) =
           amount_of_text lib (amount_column lib (df\<lparr>rows := rs'\<rparr>) ac) (amount_text lib (cell_at r ac))"
    using assms(2) [rule_format, of "amount_column lib (df\<lparr>rows := rs\<rparr>) ac" _
        "amount_column lib (df\<lparr>rows := rs'\<rparr>) ac"]
    by (simp add: amount_of_text_def split: option.splits)
  have c: "category_of lib (df\<lparr>rows := rs\<rparr>) cc r = category_of lib (df\<lparr>rows := rs'\<rparr>) cc r"
    by (cases cc) (simp_all add: category_of_def)
  from d a c show ?thesis by (simp add: clean_row_of_def)
qed

lemma dropped_row_local:
  assumes loc: "\<forall>col col' c. lib_parse_date lib col c = lib_parse_date lib col' c"
      "\<forall>col col' t. lib_to_numeric lib col t = lib_to_numeric lib col' t"
    and empty: "clean_description (str_value (astype_str lib (cell_at r desc_col))) = []"
    and ok: "clean_transaction_data lib (df\<lparr>rows := xs @ r # ys\<rparr>)
               date_col desc_col amount_col category_col = Inr out"
  shows "clean_transaction_data lib (df\<lparr>rows := xs @ ys\<rparr>)
           date_col desc_col amount_col category_col = Inr out"
proof -
  let ?big = "df\<lparr>rows := xs @ r # ys\<rparr>" and ?small = "df\<lparr>rows := xs @ ys\<rparr>"
  have same: "clean_row_of lib ?small date_col desc_col amount_col category_col =
              clean_row_of lib ?big date_col desc_col amount_col category_col"
    using row_local_rows_update [OF loc] by (intro ext) blast
  then have k: "row_kept lib ?small date_col desc_col amount_col category_col =
                row_kept lib ?big date_col desc_col amount_col category_col"
    and t: "row_transaction lib ?small date_col desc_col amount_col category_col =
            row_transaction lib ?big date_col desc_col amount_col category_col"
    by (simp_all add: fun_eq_iff row_kept_def row_transaction_def)
  from empty have nk: "\<not> row_kept lib ?big date_col desc_col amount_col category_col r"
    by (simp add: row_kept_iff)
  from pipeline_columns [OF ok] have cols:
    "date_col \<in> set (columns ?small)" "desc_col \<in> set (columns ?small)"
    "amount_col \<in> set (columns ?small)"
    and dates: "list_all (\<lambda>r. cell_at r date_col = Null \<or>
          lib_parse_date lib (date_column ?big date_col) (cell_at r date_col) \<noteq> Unparseable)
        (xs @ ys)"
    by simp_all
  from dates loc(1) have dates': "list_all (\<lambda>r. cell_at r date_col = Null \<or>
          lib_parse_date lib (date_column ?small date_col) (cell_at r date_col) \<noteq> Unparseable)
        (rows ?small)"
    by (simp add: list_all_iff) metis
  from pipeline_success [OF cols dates'] pipeline_rowwise [OF ok] nk k t
  show ?thesis by simp
qed

subsection \<open>A date that cannot be parsed\<close>

text \<open>
  Claim C1 says that a row whose date cannot be parsed is left out and the call still
  succeeds. The code does otherwise: \<^verbatim>\<open>pd.to_datetime\<close> is called without
  \<^verbatim>\<open>errors='coerce'\<close>, so one cell on which the library raises ends the call, the handler
  of line 123 catches the exception, and the whole call returns the error result. The
  theorem states this for every library and table, and its instance is the end-to-end
  scenario of the specification.
\<close>

theorem unparseable_date_fails_import:
  assumes "r \<in> set (rows df)" and "cell_at r date_col \<noteq> Null"
    and "lib_parse_date lib (map (\<lambda>r. cell_at r date_col) (rows df)) (cell_at r date_col)
           = Unparseable"
  shows "isl (clean_transaction_data lib df date_col desc_col amount_col category_col)"
  using assms by (rule pipeline_date_failure)

theorem unparseable_date_fails_import_witness:
  "statement_row (Text ''bad-date'') (Text ''X'') (Text ''$5'') \<in> set (rows statement_example) \<and>
   cell_at (statement_row (Text ''bad-date'') (Text ''X'') (Text ''$5'')) ''date'' = Text ''bad-date'' \<and>
   lib_parse_date reference_pandas (map (\<lambda>r. cell_at r ''date'') (rows statement_example))
     (Text ''bad-date'') = Unparseable \<and>
   isl (clean_transaction_data reference_pandas statement_example ''date'' ''desc'' ''amt'' None) \<and>
   clean_transaction_data reference_pandas statement_example ''date'' ''desc'' ''amt'' None
     = Inl (DateParseError (Text ''bad-date''))"
proof -
  let ?r = "statement_row (Text ''bad-date'') (Text ''X'') (Text ''$5'')"
  have a: "?r \<in> set (rows statement_example)"
    by (simp add: statement_example_def statement_def)
  have b: "cell_at ?r ''date'' = Text ''bad-date''"
    by (simp add: statement_row_def cell_at_def)
  have c: "lib_parse_date reference_pandas (map (\<lambda>r. cell_at r ''date'') (rows statement_example))
     (Text ''bad-date'') = Unparseable"
    by (simp add: reference_pandas_def simple_parse_date_def)
  have d: "clean_transaction_data reference_pandas statement_example ''date'' ''desc'' ''amt'' None
     = Inl (DateParseError (Text ''bad-date''))"
    by (simp add: run_simps del: not_None_eq)
  have e: "isl (clean_transaction_data reference_pandas statement_example
          ''date'' ''desc'' ''amt'' None)"
    using unparseable_date_fails_import [of ?r statement_example "''date''" reference_pandas]
      a b c by simp
  from a b c d e show ?thesis by blast
qed

subsection \<open>A description that cleaning empties\<close>

text \<open>
  Claim C4 says that a row whose description is emptied by the cleaning keeps its original
  description. The code does otherwise: a successful call returns the records of the kept
  rows, a row whose cleaned description is empty is not kept (line 118), and every record
  carries the cleaned description, never the original one. (The manual entry and edit forms,
  lines 357 and 652, do fall back to the original text.)
\<close>

theorem emptied_description_row_dropped:
  assumes "clean_transaction_data lib df date_col desc_col amount_col category_col = Inr out"
  shows "out = map (row_transaction lib df date_col desc_col amount_col category_col)
                 (filter (row_kept lib df date_col desc_col amount_col category_col) (rows df)) \<and>
         (\<forall>r. clean_description (str_value (astype_str lib (cell_at r desc_col))) = [] \<longrightarrow>
              \<not> row_kept lib df date_col desc_col amount_col category_col r) \<and>
         (\<forall>r. description (row_transaction lib df date_col desc_col amount_col category_col r) =
              clean_description (str_value (astype_str lib (cell_at r desc_col)))) \<and>
         (\<forall>t\<in>set out. description t \<noteq> [])"
proof -
  note eq = pipeline_rowwise [OF assms]
  have "\<forall>t\<in>set out. description t \<noteq> []"
    unfolding eq by (auto simp: row_kept_iff row_transaction_fields)
  with eq show ?thesis by (simp add: row_kept_iff row_transaction_fields)
qed

theorem emptied_description_row_dropped_witness:
  "clean_transaction_data reference_pandas statement_pos_only ''date'' ''desc'' ''amt'' None =
     Inr [\<lparr>date = Some ''2024-01-16'', description = ''WALMART'', amount = Some 10,
           category = Some ''Uncategorized''\<rparr>] \<and>
   clean_description (str_value (astype_str reference_pandas (cell_at
      (statement_row (Text ''01/15/2024'') (Text ''POS'') (Text ''$5.00'')) ''desc''))) = [] \<and>
   \<not> row_kept reference_pandas statement_pos_only ''date'' ''desc'' ''amt'' None
       (statement_row (Text ''01/15/2024'') (Text ''POS'') (Text ''$5.00''))"
proof -
  let ?r = "statement_row (Text ''01/15/2024'') (Text ''POS'') (Text ''$5.00'')"
  let ?out = "[\<lparr>date = Some ''2024-01-16'', description = ''WALMART'', amount = Some (10::rat),
           category = Some ''Uncategorized''\<rparr>]"
  have a: "clean_transaction_data reference_pandas statement_pos_only ''date'' ''desc'' ''amt'' None
      = Inr ?out"
    by (simp add: run_simps del: not_None_eq)
  have b: "clean_description (str_value (astype_str reference_pandas (cell_at ?r ''desc''))) = []"
    by (simp add: run_simps del: not_None_eq)
  from emptied_description_row_dropped [OF a] b
  have "\<not> row_kept reference_pandas statement_pos_only ''date'' ''desc'' ''amt'' None ?r"
    by blast
  with a b show ?thesis by blast
qed

subsection \<open>Column names that are not in the header\<close>

text \<open>
  Claim C5, as the code has it: a date, description or amount column that is not in the
  header makes the call return the error result, with no records. A category name that is
  not in the header does not: the test of line 110 sends it to the default, and the call
  gives what it gives without a category column.
\<close>

theorem missing_column_fails:
  "(date_col \<notin> set (columns df) \<longrightarrow>
      clean_transaction_data lib df date_col desc_col amount_col category_col
        = Inl (KeyError date_col)) \<and>
   (desc_col \<notin> set (columns df) \<or> amount_col \<notin> set (columns df) \<longrightarrow>
      isl (clean_transaction_data lib df date_col desc_col amount_col category_col)) \<and>
   (c \<notin> set (columns df) \<longrightarrow>
      clean_transaction_data lib df date_col desc_col amount_col (Some c)
        = clean_transaction_data lib df date_col desc_col amount_col None)"
proof (intro conjI impI)
  assume "date_col \<notin> set (columns df)"
  then show "clean_transaction_data lib df date_col desc_col amount_col category_col
      = Inl (KeyError date_col)"
    by (simp add: clean_transaction_data_def get_column_def)
next
  assume m: "desc_col \<notin> set (columns df) \<or> amount_col \<notin> set (columns df)"
  show "isl (clean_transaction_data lib df date_col desc_col amount_col category_col)"
  proof (cases "clean_transaction_data lib df date_col desc_col amount_col category_col")
    case (Inl e)
    then show ?thesis by simp
  next
    case (Inr out)
    from pipeline_columns [OF Inr] m show ?thesis by blast
  qed
next
  assume h: "c \<notin> set (columns df)"
  show "clean_transaction_data lib df date_col desc_col amount_col (Some c)
        = clean_transaction_data lib df date_col desc_col amount_col None"
    unfolding clean_transaction_data_def category_column_absent [OF h] by (rule refl)
qed

theorem missing_column_fails_witness:
  "''when'' \<notin> set (columns statement_with_category) \<and>
   clean_transaction_data reference_pandas statement_with_category
      ''when'' ''desc'' ''amt'' None = Inl (KeyError ''when'') \<and>
   isl (clean_transaction_data reference_pandas statement_with_category
      ''date'' ''what'' ''amt'' None) \<and>
   isl (clean_transaction_data reference_pandas statement_with_category
      ''date'' ''desc'' ''much'' None) \<and>
   ''category'' \<notin> set (columns statement_with_category) \<and>
   clean_transaction_data reference_pandas statement_with_category
      ''date'' ''desc'' ''amt'' (Some ''category'') =
   clean_transaction_data reference_pandas statement_with_category
      ''date'' ''desc'' ''amt'' None"
proof -
  have c: "columns statement_with_category = [''date'', ''desc'', ''amt'', ''cat'']"
    by (simp add: statement_with_category_def)
  have 1: "''when'' \<notin> set (columns statement_with_category)" by (simp add: c)
  have 2: "''what'' \<notin> set (columns statement_with_category)" by (simp add: c)
  have 3: "''much'' \<notin> set (columns statement_with_category)" by (simp add: c)
  have 4: "''category'' \<notin> set (columns statement_with_category)" by (simp add: c)
  from 1 missing_column_fails [where date_col = "''when''" and df = statement_with_category
      and lib = reference_pandas and desc_col = "''desc''" and amount_col = "''amt''"
      and category_col = None]
  have a: "clean_transaction_data reference_pandas statement_with_category
      ''when'' ''desc'' ''amt'' None = Inl (KeyError ''when'')" by blast
  from 2 missing_column_fails [where date_col = "''date''" and df = statement_with_category
      and lib = reference_pandas and desc_col = "''what''" and amount_col = "''amt''"
      and category_col = None]
  have b: "isl (clean_transaction_data reference_pandas statement_with_category
      ''date'' ''what'' ''amt'' None)" by blast
  from 3 missing_column_fails [where date_col = "''date''" and df = statement_with_category
      and lib = reference_pandas and desc_col = "''desc''" and amount_col = "''much''"
      and category_col = None]
  have d: "isl (clean_transaction_data reference_pandas statement_with_category
      ''date'' ''desc'' ''much'' None)" by blast
  from 4 missing_column_fails [where date_col = "''date''" and df = statement_with_category
      and lib = reference_pandas and desc_col = "''desc''" and amount_col = "''amt''"
      and c = "''category''"]
  have e: "clean_transaction_data reference_pandas statement_with_category
      ''date'' ''desc'' ''amt'' (Some ''category'') =
   clean_transaction_data reference_pandas statement_with_category
      ''date'' ''desc'' ''amt'' None" by blast
  from 1 4 a b d e show ?thesis by blast
qed

theorem absent_category_column_succeeds:
  "''category'' \<notin> set (columns statement_with_category) \<and>
   clean_transaction_data reference_pandas statement_with_category
      ''date'' ''desc'' ''amt'' (Some ''category'') =
     Inr [\<lparr>date = Some ''2024-01-15'', description = ''COFFEE'', amount = Some 3.5,
           category = Some ''Uncategorized''\<rparr>,
          \<lparr>date = Some ''2024-01-16'', description = ''LUNCH'', amount = Some 12,
           category = Some ''Uncategorized''\<rparr>]"
  by (simp add: run_simps del: not_None_eq)

subsection \<open>A table whose rows are all rejected\<close>

text \<open>
  Claim C6 says that a table whose rows are all rejected gives a success with no records.
  With every amount \<^verbatim>\<open>abc\<close> and dates that parse, the code does so
  (\<open>all_rows_rejected_success\<close> above is the general statement). With a date that cannot
  be parsed among the rows, the call returns the error result instead: the defect of claim C1.
\<close>

theorem all_rows_rejected_runs:
  "clean_transaction_data reference_pandas statement_all_abc ''date'' ''desc'' ''amt'' None
     = Inr [] \<and>
   clean_transaction_data reference_pandas statement_all_abc_bad_date ''date'' ''desc'' ''amt'' None
     = Inl (DateParseError (Text ''bad-date''))"
  by (simp add: run_simps del: not_None_eq)

subsection \<open>Amounts\<close>

text \<open>
  Claim C7. The text handed to the numeric parser is the stringified cell without the
  characters \<^verbatim>\<open>$\<close>, \<^verbatim>\<open>,\<close> and \<^verbatim>\<open>)\<close>, with every \<^verbatim>\<open>(\<close> turned into \<^verbatim>\<open>-\<close>,
  stripped; an integer cell gives its decimal numeral, which the decimal parser reads back
  as that integer; the texts \<^verbatim>\<open>$1,234.56\<close>, \<^verbatim>\<open>(45.00)\<close> and \<^verbatim>\<open>12.5 \<close> give
  \<^verbatim>\<open>1234.56\<close>, \<^verbatim>\<open>-45.00\<close> and \<^verbatim>\<open>12.5\<close>, whose absolute values are 1234.56, 45 and
  12.5. A row is kept exactly when its date is there, its cleaned description is not empty,
  and its amount text parses to a number whose absolute value is positive; the amount of its
  record is that absolute value; and a successful call returns exactly the records of the
  kept rows. Absolute value and positivity are the library's, on the library's numbers.
\<close>

theorem amount_normalization:
  "amount_text lib (Text s) =
     Some (strip (map (\<lambda>c. if c = CHR ''('' then CHR ''-'' else c)
                    (filter (\<lambda>c. c \<noteq> CHR ''$'' \<and> c \<noteq> CHR '','' \<and> c \<noteq> CHR '')'') s))) \<and>
   amount_text lib (Number i) = Some (str_int i) \<and>
   decimal_to_numeric (str_int i) = Some (of_int i) \<and>
   amount_text lib (Text ''$1,234.56'') = Some ''1234.56'' \<and>
   amount_text lib (Text ''(45.00)'') = Some ''-45.00'' \<and>
   amount_text lib (Text ''12.5 '') = Some ''12.5'' \<and>
   map_option abs (decimal_to_numeric ''1234.56'') = Some 1234.56 \<and>
   map_option abs (decimal_to_numeric ''-45.00'') = Some 45 \<and>
   map_option abs (decimal_to_numeric ''12.5'') = Some 12.5 \<and>
   (\<forall>r. row_kept lib df date_col desc_col amount_col category_col r \<longleftrightarrow>
      date_of_cell lib (date_column df date_col) (cell_at r date_col) \<noteq> None \<and>
      clean_description (str_value (astype_str lib (cell_at r desc_col))) \<noteq> [] \<and>
      (\<exists>t q. amount_text lib (cell_at r amount_col) = Some t \<and>
             lib_to_numeric lib (amount_column lib df amount_col) t = Some q \<and>
             lib_positive lib (lib_abs lib q))) \<and>
   (\<forall>r. amount (row_transaction lib df date_col desc_col amount_col category_col r) =
      (case amount_text lib (cell_at r amount_col) of
         None \<Rightarrow> None
       | Some t \<Rightarrow> map_option (lib_abs lib) (lib_to_numeric lib (amount_column lib df amount_col) t))) \<and>
   (clean_transaction_data lib df date_col desc_col amount_col category_col = Inr out \<longrightarrow>
      out = map (row_transaction lib df date_col desc_col amount_col category_col)
              (filter (row_kept lib df date_col desc_col amount_col category_col) (rows df)))"
proof -
  have ex: "amount_text lib (Text ''$1,234.56'') = Some ''1234.56'' \<and>
   amount_text lib (Text ''(45.00)'') = Some ''-45.00'' \<and>
   amount_text lib (Text ''12.5 '') = Some ''12.5'' \<and>
   map_option abs (decimal_to_numeric ''1234.56'') = Some 1234.56 \<and>
   map_option abs (decimal_to_numeric ''-45.00'') = Some 45 \<and>
   map_option abs (decimal_to_numeric ''12.5'') = Some 12.5"
    by (simp add: run_simps del: not_None_eq)
  have kept: "\<forall>r. row_kept lib df date_col desc_col amount_col category_col r \<longleftrightarrow>
      date_of_cell lib (date_column df date_col) (cell_at r date_col) \<noteq> None \<and>
      clean_description (str_value (astype_str lib (cell_at r desc_col))) \<noteq> [] \<and>
      (\<exists>t q. amount_text lib (cell_at r amount_col) = Some t \<and>
             lib_to_numeric lib (amount_column lib df amount_col) t = Some q \<and>
             lib_positive lib (lib_abs lib q))"
    by (auto simp: row_kept_iff)
  have val: "\<forall>r. amount (row_transaction lib df date_col desc_col amount_col category_col r) =
      (case amount_text lib (cell_at r amount_col) of
         None \<Rightarrow> None
       | Some t \<Rightarrow> map_option (lib_abs lib) (lib_to_numeric lib (amount_column lib df amount_col) t))"
    by (simp add: row_transaction_fields amount_of_text_def)
  have rowwise: "clean_transaction_data lib df date_col desc_col amount_col category_col = Inr out \<longrightarrow>
      out = map (row_transaction lib df date_col desc_col amount_col category_col)
              (filter (row_kept lib df date_col desc_col amount_col category_col) (rows df))"
    using pipeline_rowwise by blast
  from amount_text_Text [of lib s] amount_text_Number [of lib i] decimal_to_numeric_str_int [of i]
    ex kept val rowwise
  show ?thesis by blast
qed

theorem amount_normalization_witness:
  "clean_transaction_data reference_pandas statement_amounts ''date'' ''desc'' ''amt'' None =
     Inr [\<lparr>date = Some ''2024-01-15'', description = ''RENT'', amount = Some 1234.56,
           category = Some ''Uncategorized''\<rparr>,
          \<lparr>date = Some ''2024-01-16'', description = ''REFUND'', amount = Some 45,
           category = Some ''Uncategorized''\<rparr>,
          \<lparr>date = Some ''2024-01-17'', description = ''LUNCH'', amount = Some 12.5,
           category = Some ''Uncategorized''\<rparr>] \<and>
   [\<lparr>date = Some ''2024-01-15'', description = ''RENT'', amount = Some 1234.56,
           category = Some ''Uncategorized''\<rparr>,
          \<lparr>date = Some ''2024-01-16'', description = ''REFUND'', amount = Some 45,
           category = Some ''Uncategorized''\<rparr>,
          \<lparr>date = Some ''2024-01-17'', description = ''LUNCH'', amount = Some 12.5,
           category = Some ''Uncategorized''\<rparr>] =
     map (row_transaction reference_pandas statement_amounts ''date'' ''desc'' ''amt'' None)
       (filter (row_kept reference_pandas statement_amounts ''date'' ''desc'' ''amt'' None)
          (rows statement_amounts)) \<and>
   row_kept reference_pandas statement_amounts ''date'' ''desc'' ''amt'' None
     (statement_row (Text ''01/16/2024'') (Text ''REFUND'') (Text ''(45.00)'')) \<and>
   amount (row_transaction reference_pandas statement_amounts ''date'' ''desc'' ''amt'' None
     (statement_row (Text ''01/16/2024'') (Text ''REFUND'') (Text ''(45.00)''))) = Some 45 \<and>
   \<not> row_kept reference_pandas statement_amounts ''date'' ''desc'' ''amt'' None
     (statement_row (Text ''01/18/2024'') (Text ''FEE'') (Text ''abc'')) \<and>
   \<not> row_kept reference_pandas statement_amounts ''date'' ''desc'' ''amt'' None
     (statement_row (Text ''01/19/2024'') (Text ''VOID'') (Text ''0.00''))"
proof -
  let ?refund = "statement_row (Text ''01/16/2024'') (Text ''REFUND'') (Text ''(45.00)'')"
  let ?fee = "statement_row (Text ''01/18/2024'') (Text ''FEE'') (Text ''abc'')"
  let ?void = "statement_row (Text ''01/19/2024'') (Text ''VOID'') (Text ''0.00'')"
  let ?out = "[\<lparr>date = Some ''2024-01-15'', description = ''RENT'', amount = Some (1234.56::rat),
           category = Some ''Uncategorized''\<rparr>,
          \<lparr>date = Some ''2024-01-16'', description = ''REFUND'', amount = Some 45,
           category = Some ''Uncategorized''\<rparr>,
          \<lparr>date = Some ''2024-01-17'', description = ''LUNCH'', amount = Some 12.5,
           category = Some ''Uncategorized''\<rparr>]"
  note inst = amount_normalization [where lib = reference_pandas and df = statement_amounts
      and date_col = "''date''" and desc_col = "''desc''" and amount_col = "''amt''"
      and category_col = None and out = ?out]
  have a: "clean_transaction_data reference_pandas statement_amounts ''date'' ''desc'' ''amt'' None
      = Inr ?out"
    by (simp add: run_simps del: not_None_eq)
  from inst a have b: "?out =
     map (row_transaction reference_pandas statement_amounts ''date'' ''desc'' ''amt'' None)
       (filter (row_kept reference_pandas statement_amounts ''date'' ''desc'' ''amt'' None)
          (rows statement_amounts))" by blast
  from inst have kept: "\<And>r. row_kept reference_pandas statement_amounts ''date'' ''desc'' ''amt'' None r \<longleftrightarrow>
      date_of_cell reference_pandas (date_column statement_amounts ''date'') (cell_at r ''date'') \<noteq> None \<and>
      clean_description (str_value (astype_str reference_pandas (cell_at r ''desc''))) \<noteq> [] \<and>
      (\<exists>t q. amount_text reference_pandas (cell_at r ''amt'') = Some t \<and>
             lib_to_numeric reference_pandas (amount_column reference_pandas statement_amounts ''amt'') t = Some q \<and>
             lib_positive reference_pandas (lib_abs reference_pandas q))" by blast
  from inst have val: "\<And>r. amount (row_transaction reference_pandas statement_amounts ''date'' ''desc'' ''amt'' None r) =
      (case amount_text reference_pandas (cell_at r ''amt'') of
         None \<Rightarrow> None
       | Some t \<Rightarrow> map_option (lib_abs reference_pandas)
           (lib_to_numeric reference_pandas (amount_column reference_pandas statement_amounts ''amt'') t))"
    by blast
  have c: "row_kept reference_pandas statement_amounts ''date'' ''desc'' ''amt'' None ?refund"
    unfolding kept by (simp add: run_simps date_of_cell_def del: not_None_eq)
  have d: "amount (row_transaction reference_pandas statement_amounts ''date'' ''desc'' ''amt'' None
      ?refund) = Some 45"
    unfolding val by (simp add: run_simps del: not_None_eq)
  have e: "\<not> row_kept reference_pandas statement_amounts ''date'' ''desc'' ''amt'' None ?fee"
    unfolding kept by (simp add: run_simps del: not_None_eq)
  have f: "\<not> row_kept reference_pandas statement_amounts ''date'' ''desc'' ''amt'' None ?void"
    unfolding kept by (simp add: run_simps del: not_None_eq)
  from a b c d e f show ?thesis by blast
qed

subsection \<open>Row order\<close>

text \<open>
  Claim C8: a successful call returns the records of the kept rows in the order of the rows.
  The output is a subsequence of the rows' records and is no longer than the table.
\<close>

theorem import_preserves_row_order:
  assumes "clean_transaction_data lib df date_col desc_col amount_col category_col = Inr out"
  shows "out = map (row_transaction lib df date_col desc_col amount_col category_col)
                 (filter (row_kept lib df date_col desc_col amount_col category_col) (rows df)) \<and>
         subseq out (map (row_transaction lib df date_col desc_col amount_col category_col)
                       (rows df)) \<and>
         length out \<le> length (rows df)"
proof -
  note eq = pipeline_rowwise [OF assms]
  have "subseq out (map (row_transaction lib df date_col desc_col amount_col category_col)
                       (rows df))"
    unfolding eq by (intro subseq_map subseq_filter_left)
  moreover have "length out \<le> length (rows df)"
    unfolding eq by simp
  ultimately show ?thesis using eq by blast
qed

theorem import_preserves_row_order_witness:
  "clean_transaction_data reference_pandas statement_bad_amount ''date'' ''desc'' ''amt'' None =
     Inr [\<lparr>date = Some ''2024-01-15'', description = ''JOES DINER'', amount = Some 23.45,
           category = Some ''Uncategorized''\<rparr>,
          \<lparr>date = Some ''2024-01-16'', description = ''WALMART'', amount = Some 10,
           category = Some ''Uncategorized''\<rparr>] \<and>
   subseq [\<lparr>date = Some ''2024-01-15'', description = ''JOES DINER'', amount = Some 23.45,
           category = Some ''Uncategorized''\<rparr>,
          \<lparr>date = Some ''2024-01-16'', description = ''WALMART'', amount = Some 10,
           category = Some ''Uncategorized''\<rparr>]
     (map (row_transaction reference_pandas statement_bad_amount ''date'' ''desc'' ''amt'' None)
        (rows statement_bad_amount)) \<and>
   length (rows statement_bad_amount) = 3"
proof -
  let ?out = "[\<lparr>date = Some ''2024-01-15'', description = ''JOES DINER'',
           amount = Some (23.45::rat), category = Some ''Uncategorized''\<rparr>,
          \<lparr>date = Some ''2024-01-16'', description = ''WALMART'', amount = Some 10,
           category = Some ''Uncategorized''\<rparr>]"
  have a: "clean_transaction_data reference_pandas statement_bad_amount
      ''date'' ''desc'' ''amt'' None = Inr ?out"
    by (simp add: run_simps del: not_None_eq)
  have b: "length (rows statement_bad_amount) = 3"
    by (simp add: statement_bad_amount_def statement_def)
  from import_preserves_row_order [OF a] a b show ?thesis by blast
qed

subsection \<open>Categories\<close>

text \<open>
  Claim C9, as the code has it: every returned record comes from a row, with the category
  \<^verbatim>\<open>Uncategorized\<close> when no category column is given, its name is empty or it is not
  in the header, and otherwise with the row's category cell, stringified and stripped. No
  filter looks at the category, so a blank category cell gives the empty category.
\<close>

theorem record_categories:
  assumes "clean_transaction_data lib df date_col desc_col amount_col category_col = Inr out"
    and "t \<in> set out"
  shows "\<exists>r\<in>set (rows df).
           t = row_transaction lib df date_col desc_col amount_col category_col r \<and>
           category t =
             (case category_col of
                None \<Rightarrow> Some ''Uncategorized''
              | Some c \<Rightarrow>
                  if c \<noteq> [] \<and> c \<in> set (columns df)
                  then map_option strip (astype_str lib (cell_at r c))
                  else Some ''Uncategorized'')"
proof -
  from pipeline_member [OF assms] obtain r where
    r: "r \<in> set (rows df)"
    and t: "t = row_transaction lib df date_col desc_col amount_col category_col r"
    by blast
  from t have "category t = category_of lib df category_col r"
    by (simp add: row_transaction_fields)
  with r t show ?thesis unfolding category_of_def by blast
qed

theorem record_categories_witness:
  "clean_transaction_data reference_pandas statement_with_category
      ''date'' ''desc'' ''amt'' (Some ''cat'') =
     Inr [\<lparr>date = Some ''2024-01-15'', description = ''COFFEE'', amount = Some 3.5,
           category = Some ''Food''\<rparr>,
          \<lparr>date = Some ''2024-01-16'', description = ''LUNCH'', amount = Some 12,
           category = Some []\<rparr>] \<and>
   (\<exists>r\<in>set (rows statement_with_category).
       category \<lparr>date = Some ''2024-01-15'', description = ''COFFEE'', amount = Some (3.5::rat),
           category = Some ''Food''\<rparr> =
       map_option strip (astype_str reference_pandas (cell_at r ''cat'')))"
proof -
  let ?t = "\<lparr>date = Some ''2024-01-15'', description = ''COFFEE'', amount = Some (3.5::rat),
              category = Some ''Food''\<rparr>"
  let ?out = "[?t, \<lparr>date = Some ''2024-01-16'', description = ''LUNCH'', amount = Some 12,
                    category = Some []\<rparr>]"
  have a: "clean_transaction_data reference_pandas statement_with_category
      ''date'' ''desc'' ''amt'' (Some ''cat'') = Inr ?out"
    by (simp add: run_simps del: not_None_eq)
  have b: "?t \<in> set ?out" by simp
  have c: "''cat'' \<in> set (columns statement_with_category)"
    by (simp add: statement_with_category_def)
  from record_categories [OF a b] c
  have "\<exists>r\<in>set (rows statement_with_category).
          category ?t = map_option strip (astype_str reference_pandas (cell_at r ''cat''))"
    by auto
  with a show ?thesis by blast
qed

theorem blank_category_gives_empty_category:
  "clean_transaction_data reference_pandas statement_with_category
      ''date'' ''desc'' ''amt'' (Some ''cat'') =
     Inr [\<lparr>date = Some ''2024-01-15'', description = ''COFFEE'', amount = Some 3.5,
           category = Some ''Food''\<rparr>,
          \<lparr>date = Some ''2024-01-16'', description = ''LUNCH'', amount = Some 12,
           category = Some []\<rparr>]"
  by (simp add: run_simps del: not_None_eq)

subsection \<open>Missing descriptions\<close>

text \<open>
  Claim C10, as the code has it, depends on the installed pandas. Where
  \<^verbatim>\<open>astype(str)\<close> turns a missing value into the text \<^verbatim>\<open>nan\<close> (pandas 1.x and 2.x),
  the cleaner leaves that text as it is and a row with a missing description, a date that
  parses and an amount that is kept is returned with the description \<^verbatim>\<open>nan\<close>. Where
  \<^verbatim>\<open>astype(str)\<close> leaves the value missing (pandas 3), the guard of line 50 fires, the
  cleaned description is empty and line 118 drops the row.
\<close>

theorem missing_description_by_version:
  assumes "clean_transaction_data lib df date_col desc_col amount_col category_col = Inr out"
    and "r \<in> set (rows df)"
    and "cell_at r desc_col = Null"
    and "cell_at r date_col \<noteq> Null"
    and "lib_parse_date lib (date_column df date_col) (cell_at r date_col) = Stamp d"
    and "amount_text lib (cell_at r amount_col) = Some s"
    and "lib_to_numeric lib (amount_column lib df amount_col) s = Some q"
    and "lib_positive lib (lib_abs lib q)"
  shows "(lib_na_text lib = Some ''nan'' \<longrightarrow>
            clean_description (str_value (astype_str lib (cell_at r desc_col))) = ''nan'' \<and>
            \<lparr>date = Some (strftime d), description = ''nan'', amount = Some (lib_abs lib q),
              category = category_of lib df category_col r\<rparr> \<in> set out) \<and>
         (lib_na_text lib = None \<longrightarrow>
            clean_description (str_value (astype_str lib (cell_at r desc_col))) = [] \<and>
            \<not> row_kept lib df date_col desc_col amount_col category_col r \<and>
            out = map (row_transaction lib df date_col desc_col amount_col category_col)
                    (filter (row_kept lib df date_col desc_col amount_col category_col) (rows df)))"
proof (intro conjI impI)
  assume na: "lib_na_text lib = Some ''nan''"
  have n: "clean_description (Text ''nan'') = ''nan''"
    by (simp add: run_simps)
  with na assms(3) show c: "clean_description (str_value (astype_str lib (cell_at r desc_col))) = ''nan''"
    by (simp add: astype_str_def str_value_def)
  have dt: "date_of_cell lib (date_column df date_col) (cell_at r date_col) = Some (strftime d)"
    using assms(4,5) by (simp add: date_of_cell_def)
  have k: "row_kept lib df date_col desc_col amount_col category_col r"
    using c dt assms(6,7,8) by (simp add: row_kept_iff)
  have "row_transaction lib df date_col desc_col amount_col category_col r =
        \<lparr>date = Some (strftime d), description = ''nan'', amount = Some (lib_abs lib q),
          category = category_of lib df category_col r\<rparr>"
    using c dt assms(6,7) by (simp add: row_transaction_fields amount_of_text_def)
  with pipeline_kept_member [OF assms(1,2) k]
  show "\<lparr>date = Some (strftime d), description = ''nan'', amount = Some (lib_abs lib q),
          category = category_of lib df category_col r\<rparr> \<in> set out" by simp
next
  assume na: "lib_na_text lib = None"
  with assms(3) show c: "clean_description (str_value (astype_str lib (cell_at r desc_col))) = []"
    by (simp add: astype_str_def str_value_def clean_description_def)
  then show "\<not> row_kept lib df date_col desc_col amount_col category_col r"
    by (simp add: row_kept_iff)
  from pipeline_rowwise [OF assms(1)]
  show "out = map (row_transaction lib df date_col desc_col amount_col category_col)
                (filter (row_kept lib df date_col desc_col amount_col category_col) (rows df))" .
qed

theorem missing_description_by_version_witness:
  "clean_transaction_data reference_pandas statement_missing_description
      ''date'' ''desc'' ''amt'' None =
     Inr [\<lparr>date = Some ''2024-01-15'', description = ''nan'', amount = Some 5,
           category = Some ''Uncategorized''\<rparr>,
          \<lparr>date = Some ''2024-01-16'', description = ''WALMART'', amount = Some 10,
           category = Some ''Uncategorized''\<rparr>] \<and>
   cell_at (statement_row (Text ''01/15/2024'') Null (Text ''$5.00'')) ''desc'' = Null \<and>
   lib_na_text reference_pandas = Some ''nan'' \<and>
   \<lparr>date = Some (strftime \<lparr>ts_year = 2024, ts_month = 1, ts_day = 15\<rparr>), description = ''nan'',
     amount = Some (lib_abs reference_pandas 5),
     category = category_of reference_pandas statement_missing_description None
        (statement_row (Text ''01/15/2024'') Null (Text ''$5.00''))\<rparr>
    \<in> set [\<lparr>date = Some ''2024-01-15'', description = ''nan'', amount = Some 5,
           category = Some ''Uncategorized''\<rparr>,
          \<lparr>date = Some ''2024-01-16'', description = ''WALMART'', amount = Some 10,
           category = Some ''Uncategorized''\<rparr>] \<and>
   lib_na_text reference_pandas3 = None \<and>
   \<not> row_kept reference_pandas3 statement_missing_description ''date'' ''desc'' ''amt'' None
       (statement_row (Text ''01/15/2024'') Null (Text ''$5.00''))"
proof -
  let ?r = "statement_row (Text ''01/15/2024'') Null (Text ''$5.00'')"
  let ?out = "[\<lparr>date = Some ''2024-01-15'', description = ''nan'', amount = Some (5::rat),
           category = Some ''Uncategorized''\<rparr>,
          \<lparr>date = Some ''2024-01-16'', description = ''WALMART'', amount = Some 10,
           category = Some ''Uncategorized''\<rparr>]"
  let ?out3 = "[\<lparr>date = Some ''2024-01-16'', description = ''WALMART'', amount = Some (10::rat),
           category = Some ''Uncategorized''\<rparr>]"
  let ?d = "\<lparr>ts_year = 2024, ts_month = 1, ts_day = 15\<rparr>"
  have a: "clean_transaction_data reference_pandas statement_missing_description
      ''date'' ''desc'' ''amt'' None = Inr ?out"
    by (simp add: run_simps del: not_None_eq)
  have a3: "clean_transaction_data reference_pandas3 statement_missing_description
      ''date'' ''desc'' ''amt'' None = Inr ?out3"
    by (simp add: run_simps del: not_None_eq)
  have b: "?r \<in> set (rows statement_missing_description)"
    by (simp add: statement_missing_description_def statement_def)
  have c: "cell_at ?r ''desc'' = Null" by (simp add: statement_row_def cell_at_def)
  have d: "cell_at ?r ''date'' \<noteq> Null" by (simp add: statement_row_def cell_at_def)
  have e: "lib_parse_date reference_pandas (date_column statement_missing_description ''date'')
             (cell_at ?r ''date'') = Stamp ?d"
    by (simp add: run_simps del: not_None_eq)
  have e3: "lib_parse_date reference_pandas3 (date_column statement_missing_description ''date'')
             (cell_at ?r ''date'') = Stamp ?d"
    by (simp add: run_simps del: not_None_eq)
  have f: "amount_text reference_pandas (cell_at ?r ''amt'') = Some ''5.00''"
    by (simp add: run_simps del: not_None_eq)
  have f3: "amount_text reference_pandas3 (cell_at ?r ''amt'') = Some ''5.00''"
    by (simp add: run_simps del: not_None_eq)
  have g: "lib_to_numeric reference_pandas
             (amount_column reference_pandas statement_missing_description ''amt'') ''5.00'' = Some 5"
    by (simp add: run_simps del: not_None_eq)
  have g3: "lib_to_numeric reference_pandas3
             (amount_column reference_pandas3 statement_missing_description ''amt'') ''5.00'' = Some 5"
    by (simp add: run_simps del: not_None_eq)
  have h: "lib_positive reference_pandas (lib_abs reference_pandas 5)"
    by (simp add: reference_pandas_def)
  have h3: "lib_positive reference_pandas3 (lib_abs reference_pandas3 5)"
    by (simp add: reference_pandas_def reference_pandas3_def)
  have n: "lib_na_text reference_pandas = Some ''nan''" by (simp add: reference_pandas_def)
  have n3: "lib_na_text reference_pandas3 = None"
    by (simp add: reference_pandas_def reference_pandas3_def)
  from missing_description_by_version [OF a b c d e f g h] n
  have m: "\<lparr>date = Some (strftime ?d), description = ''nan'',
     amount = Some (lib_abs reference_pandas 5),
     category = category_of reference_pandas statement_missing_description None ?r\<rparr> \<in> set ?out"
    by blast
  from missing_description_by_version [OF a3 b c d e3 f3 g3 h3] n3
  have m3: "\<not> row_kept reference_pandas3 statement_missing_description ''date'' ''desc'' ''amt''
      None ?r" by blast
  from a c n m n3 m3 show ?thesis by blast
qed

theorem missing_description_dropped_on_pandas3:
  "cell_at (statement_row (Text ''01/15/2024'') Null (Text ''$5.00'')) ''desc'' = Null \<and>
   clean_transaction_data reference_pandas3 statement_missing_description
      ''date'' ''desc'' ''amt'' None =
     Inr [\<lparr>date = Some ''2024-01-16'', description = ''WALMART'', amount = Some 10,
           category = Some ''Uncategorized''\<rparr>]"
  by (simp add: run_simps del: not_None_eq)

end
